theory Spec2Isabelle
  imports Complex_Main "HOL-Library.Word" "HOL-Library.Signed_Division"
begin

section \<open>Data model of Source.cpp\<close>

text \<open>
  The C++ \<^verbatim>\<open>int\<close> is a 32-bit two's-complement value: a \<open>32 word\<close>, read
  through \<open>sint\<close> wherever the source compares or divides. A floating-point
  variable holds a real number. The coordinates (\<^verbatim>\<open>double\<close>) are multiples of
  \<open>1/2\<close> of small magnitude, for which IEEE addition is exact, so they are added
  as reals. The timer is different: \<^verbatim>\<open>GameTime\<close> and \<^verbatim>\<open>Interval\<close> are
  \<^verbatim>\<open>float\<close>, and the sum with the \<^verbatim>\<open>double\<close> 1 / 60.0 is rounded in every
  frame, first to binary64 and then to binary32; the rounding is modelled below.
\<close>

type_synonym c_int = "32 word"

text \<open>\<^verbatim>\<open>using pos_t = std::array<double, 2>\<close> with its four operators.\<close>

type_synonym pos_t = "real \<times> real"

definition pos_add :: "pos_t \<Rightarrow> pos_t \<Rightarrow> pos_t" where
  "pos_add a b = (fst a + fst b, snd a + snd b)"

definition pos_sub :: "pos_t \<Rightarrow> pos_t \<Rightarrow> pos_t" where
  "pos_sub a b = (fst a - fst b, snd a - snd b)"

definition pos_mul :: "pos_t \<Rightarrow> pos_t \<Rightarrow> pos_t" where
  "pos_mul a b = (fst a * fst b, snd a * snd b)"

definition pos_scale :: "pos_t \<Rightarrow> real \<Rightarrow> pos_t" where
  "pos_scale a b = (fst a * b, snd a * b)"

subsection \<open>Rounding to binary64 and binary32\<close>

text \<open>The number of binary digits of a natural number.\<close>

fun bits :: "nat \<Rightarrow> nat" where
  "bits n = (if n = 0 then 0 else Suc (bits (n div 2)))"

declare bits.simps [simp del]

text \<open>For \<open>x > 0\<close>, the exponent \<open>e\<close> with \<open>2^e \<le> x < 2^(e+1)\<close>.\<close>

definition binade :: "real \<Rightarrow> int" where
  "binade x = (if 1 \<le> x then int (bits (nat \<lfloor>x\<rfloor>)) - 1
               else - int (bits (nat (\<lceil>1 / x\<rceil> - 1))))"

text \<open>The nearest integer, a tie going to the even one.\<close>

definition round_even :: "real \<Rightarrow> int" where
  "round_even q =
    (let f = \<lfloor>q\<rfloor>
     in if q - real_of_int f < 1 / 2 then f
        else if q - real_of_int f > 1 / 2 then f + 1
        else if even f then f else f + 1)"

text \<open>
  Round to nearest, ties to even, with a significand of \<open>p\<close> binary digits. The
  exponent range is not bounded: the timer stays between 1/60 and \<open>2^19\<close>, far
  from overflow and from the subnormal numbers.
\<close>

definition round_to :: "nat \<Rightarrow> real \<Rightarrow> real" where
  "round_to p x =
    (if x = 0 then 0
     else let k = binade \<bar>x\<bar> - (int p - 1);
              u = (if 0 \<le> k then 2 ^ nat k else 1 / 2 ^ nat (- k))
          in sgn x * (real_of_int (round_even (\<bar>x\<bar> / u)) * u))"

definition to_double :: "real \<Rightarrow> real" where
  "to_double x = round_to 53 x"

definition to_float :: "real \<Rightarrow> real" where
  "to_float x = round_to 24 x"

definition SCREEN_WIDTH :: c_int where
  "SCREEN_WIDTH = 800"

definition SCREEN_HEIGHT :: c_int where
  "SCREEN_HEIGHT = 600"

text \<open>Integer division of two \<^verbatim>\<open>int\<close>s truncates towards zero.\<close>

definition c_div :: "c_int \<Rightarrow> c_int \<Rightarrow> c_int" where
  "c_div a b = word_of_int (sint a sdiv sint b)"

text \<open>An \<^verbatim>\<open>int\<close> converted to \<^verbatim>\<open>double\<close>.\<close>

definition int_to_double :: "c_int \<Rightarrow> real" where
  "int_to_double i = real_of_int (sint i)"

text \<open>
  The cast \<^verbatim>\<open>(int)d\<close> of a double drops the fraction (towards zero). Where the
  result does not fit an \<^verbatim>\<open>int\<close> the cast is undefined in C++; the model returns
  what the conversion instruction of x86-64 returns there, \<^verbatim>\<open>INT_MIN\<close>.
\<close>

definition INT_MIN :: c_int where
  "INT_MIN = - (2 ^ 31)"

definition double_to_int :: "real \<Rightarrow> c_int" where
  "double_to_int d =
    (if - (2 ^ 31) - 1 < d \<and> d < 2 ^ 31
     then word_of_int (if 0 \<le> d then \<lfloor>d\<rfloor> else \<lceil>d\<rceil>)
     else INT_MIN)"

text \<open>\<^verbatim>\<open>SDL_Rect\<close>: the fields \<^verbatim>\<open>x, y, w, h\<close>.\<close>

record SDL_Rect =
  rect_x :: c_int
  rect_y :: c_int
  rect_w :: c_int
  rect_h :: c_int

text \<open>
  A rectangle member that the program has not assigned yet holds whatever its storage
  holds: \<open>Indeterminate bits\<close>. Once the program stores a rectangle into it, it is
  \<open>Assigned\<close>. Reading either yields the bits.
\<close>

datatype rect_mem = Indeterminate SDL_Rect | Assigned SDL_Rect

fun rect_bits :: "rect_mem \<Rightarrow> SDL_Rect" where
  "rect_bits (Indeterminate r) = r"
| "rect_bits (Assigned r) = r"

fun is_assigned :: "rect_mem \<Rightarrow> bool" where
  "is_assigned (Indeterminate r) = False"
| "is_assigned (Assigned r) = True"

text \<open>\<^verbatim>\<open>class GameObject\<close>.\<close>

record GameObject =
  Position :: pos_t
  Velocity :: pos_t
  Size :: pos_t
  DestRect :: rect_mem

section \<open>CheckCollision\<close>

definition CheckCollision :: "SDL_Rect \<Rightarrow> SDL_Rect \<Rightarrow> bool" where
  "CheckCollision a b =
    (let leftA = rect_x a;
         rightA = rect_x a + rect_w a;
         topA = rect_y a;
         bottomA = rect_y a + rect_h a;
         leftB = rect_x b;
         rightB = rect_x b + rect_w b;
         topB = rect_y b;
         bottomB = rect_y b + rect_h b
     in if sint bottomA \<le> sint topB then False
        else if sint topA \<ge> sint bottomB then False
        else if sint rightA \<le> sint leftB then False
        else if sint leftA \<ge> sint rightB then False
        else True)"

section \<open>GetWall\<close>

text \<open>
  \<^verbatim>\<open>GameObject Wall;\<close> leaves \<^verbatim>\<open>DestRect\<close> without a value, and
  \<^verbatim>\<open>GetWall\<close> stores only the three vectors. The first argument stands for the
  contents of the storage the object is built in.
\<close>

definition GetWall :: "SDL_Rect \<Rightarrow> pos_t \<Rightarrow> pos_t \<Rightarrow> pos_t \<Rightarrow> GameObject" where
  "GetWall mem P V S =
     \<lparr>Position = P, Velocity = V, Size = S, DestRect = Indeterminate mem\<rparr>"

section \<open>The state of main and what a frame receives from outside\<close>

datatype SDL_EventType = SDL_QUIT | SDL_OTHER

text \<open>
  One frame's view of the outside: the events polled, whether
  \<^verbatim>\<open>KeyboardState[SDL_SCANCODE_UP]\<close> is non-zero, the two numbers the random
  distributions return if they are asked, and the storage contents of the two
  walls that may be built.
\<close>

record frame_env =
  events :: "SDL_EventType list"
  key_up :: bool
  rnd_interval :: int
  rnd_pos :: int
  wall_mem1 :: SDL_Rect
  wall_mem2 :: SDL_Rect

text \<open>The contract of \<^verbatim>\<open>uniform_int_distribution<int>\<close> for (3, 6) and (-150, 150).\<close>

definition env_ok :: "frame_env \<Rightarrow> bool" where
  "env_ok e = (3 \<le> rnd_interval e \<and> rnd_interval e \<le> 6
               \<and> -150 \<le> rnd_pos e \<and> rnd_pos e \<le> 150)"

record game =
  Player :: GameObject
  Score :: c_int
  GameTime :: real
  Interval :: real
  Walls :: "GameObject list"
  GameLost :: bool
  FrameTime :: c_int
  TextureWidth :: c_int
  TextureHeight :: c_int
  FrameWidth :: c_int
  FrameHeight :: c_int
  anim :: SDL_Rect
  game_active :: bool

text \<open>\<^verbatim>\<open>double DeltaTime = 1 / 60.0\<close>: the quotient, rounded to binary64.\<close>

definition DeltaTime :: real where
  "DeltaTime = to_double (1 / 60)"

text \<open>
  \<^verbatim>\<open>GameTime += DeltaTime\<close> on the \<^verbatim>\<open>float GameTime\<close>: the sum is taken in
  \<^verbatim>\<open>double\<close> and stored as \<^verbatim>\<open>float\<close>.
\<close>

definition next_time :: "real \<Rightarrow> real" where
  "next_time t = to_float (to_double (t + DeltaTime))"

text \<open>
  \<^verbatim>\<open>Interval += n\<close> for the \<^verbatim>\<open>float Interval\<close> and an \<^verbatim>\<open>int n\<close>: the
  integer is converted to \<^verbatim>\<open>float\<close> and the sum is a \<^verbatim>\<open>float\<close>.
\<close>

definition next_interval :: "real \<Rightarrow> int \<Rightarrow> real" where
  "next_interval iv n = to_float (iv + to_float (real_of_int n))"

text \<open>
  The state when the loop is entered. \<open>tw\<close> and \<open>th\<close> are what
  \<^verbatim>\<open>SDL_QueryTexture\<close> reports for the bird texture; \<open>mem\<close> is the storage
  of the player's \<^verbatim>\<open>DestRect\<close>, not assigned before the loop.
\<close>

definition init :: "c_int \<Rightarrow> c_int \<Rightarrow> SDL_Rect \<Rightarrow> game" where
  "init tw th mem =
    \<lparr>Player = \<lparr>Position = (int_to_double (c_div SCREEN_WIDTH 4),
                            int_to_double (c_div SCREEN_HEIGHT 2)),
                Velocity = (0, 0), Size = (32, 32), DestRect = Indeterminate mem\<rparr>,
     Score = 0, GameTime = 0, Interval = 1, Walls = [], GameLost = False,
     FrameTime = 0, TextureWidth = tw, TextureHeight = th,
     FrameWidth = c_div tw 4, FrameHeight = th,
     anim = \<lparr>rect_x = 0, rect_y = 0, rect_w = c_div tw 4, rect_h = th\<rparr>,
     game_active = True\<rparr>"

section \<open>One iteration of the loop, phase by phase\<close>

text \<open>Lines 184-191: the timer and the spawn of a pair of walls.\<close>

definition spawn :: "frame_env \<Rightarrow> game \<Rightarrow> game" where
  "spawn e g =
    (let g1 = g\<lparr>GameTime := next_time (GameTime g)\<rparr>
     in if GameTime g1 > Interval g1 then
          g1\<lparr>Interval := next_interval (Interval g1) (rnd_interval e),
             Walls := Walls g1 @
               [GetWall (wall_mem1 e) (832, 650 + real_of_int (rnd_pos e)) (-1, 0) (64, 512),
                GetWall (wall_mem2 e) (832, -50 + real_of_int (rnd_pos e)) (-1, 0) (64, 512)]\<rparr>
        else g1)"

text \<open>Lines 193-196: the event loop.\<close>

fun poll :: "SDL_EventType list \<Rightarrow> bool \<Rightarrow> bool" where
  "poll [] active = active"
| "poll (ev # evs) active = poll evs (if ev = SDL_QUIT then False else active)"

definition poll_events :: "frame_env \<Rightarrow> game \<Rightarrow> game" where
  "poll_events e g = g\<lparr>game_active := poll (events e) (game_active g)\<rparr>"

text \<open>Lines 198-205: the keyboard.\<close>

definition handle_input :: "frame_env \<Rightarrow> game \<Rightarrow> game" where
  "handle_input e g =
    (if \<not> GameLost g then
       (if key_up e then
          g\<lparr>Player := (Player g)
               \<lparr>Position := (fst (Position (Player g)), snd (Position (Player g)) - 1),
                Velocity := (fst (Velocity (Player g)), -8)\<rparr>\<rparr>
        else g)
     else g)"

text \<open>Lines 207-208: the player moves, then gains speed downwards.\<close>

definition integrate :: "game \<Rightarrow> game" where
  "integrate g =
    (let p1 = (Player g)\<lparr>Position := pos_add (Position (Player g)) (Velocity (Player g))\<rparr>;
         p2 = p1\<lparr>Velocity := pos_add (Velocity p1) (0, 0.5)\<rparr>
     in g\<lparr>Player := p2\<rparr>)"

text \<open>Lines 210-212: the window borders.\<close>

definition border_check :: "game \<Rightarrow> game" where
  "border_check g =
    (if snd (Position (Player g)) < - snd (Size (Player g)) / 2
        \<or> snd (Position (Player g)) > int_to_double SCREEN_HEIGHT + snd (Size (Player g)) / 2
     then g\<lparr>GameLost := True\<rparr> else g)"

text \<open>
  Lines 214-220: every wall moves and is tested against the player with the
  rectangles the two objects hold at that moment. The loop returns the walls and
  the flag.
\<close>

fun wall_loop :: "GameObject \<Rightarrow> GameObject list \<Rightarrow> bool \<Rightarrow> GameObject list \<times> bool" where
  "wall_loop pl [] lost = ([], lost)"
| "wall_loop pl (wall # rest) lost =
    (let wall1 = wall\<lparr>Position := pos_add (Position wall) (Velocity wall)\<rparr>;
         lost1 = (if CheckCollision (rect_bits (DestRect wall1)) (rect_bits (DestRect pl))
                  then True else lost);
         (rest1, lost2) = wall_loop pl rest lost1
     in (wall1 # rest1, lost2))"

definition collide :: "game \<Rightarrow> game" where
  "collide g =
    (let (ws, lost) = wall_loop (Player g) (Walls g) (GameLost g)
     in g\<lparr>Walls := ws, GameLost := lost\<rparr>)"

text \<open>Lines 227 and 239: the rectangle an object is drawn into.\<close>

definition dest_rect_of :: "GameObject \<Rightarrow> SDL_Rect" where
  "dest_rect_of ob =
    \<lparr>rect_x = double_to_int (fst (Position ob) - fst (Size ob) / 2),
     rect_y = double_to_int (snd (Position ob) - snd (Size ob) / 2),
     rect_w = double_to_int (fst (Size ob)),
     rect_h = double_to_int (snd (Size ob))\<rparr>"

definition place :: "GameObject \<Rightarrow> GameObject" where
  "place ob = ob\<lparr>DestRect := Assigned (dest_rect_of ob)\<rparr>"

text \<open>Lines 225-229: the walls are placed and drawn.\<close>

definition render_walls :: "game \<Rightarrow> game" where
  "render_walls g = g\<lparr>Walls := map place (Walls g)\<rparr>"

text \<open>Lines 231-237: the animation of the bird.\<close>

definition animate :: "game \<Rightarrow> game" where
  "animate g =
    (let g1 = g\<lparr>FrameTime := FrameTime g + 1\<rparr>
     in if FrameTime g1 = 5 then
          (let g2 = g1\<lparr>FrameTime := 0\<rparr>;
               g3 = g2\<lparr>anim := (anim g2)\<lparr>rect_x := rect_x (anim g2) + FrameWidth g2\<rparr>\<rparr>
           in if sint (rect_x (anim g3)) \<ge> sint (TextureWidth g3)
              then g3\<lparr>anim := (anim g3)\<lparr>rect_x := 0\<rparr>\<rparr>
              else g3)
        else g1)"

text \<open>Line 239: the player is placed and drawn.\<close>

definition render_player :: "game \<Rightarrow> game" where
  "render_player g = g\<lparr>Player := place (Player g)\<rparr>"

definition render :: "game \<Rightarrow> game" where
  "render g = render_player (animate (render_walls g))"

text \<open>The body of the loop, lines 184-251.\<close>

definition frame :: "frame_env \<Rightarrow> game \<Rightarrow> game" where
  "frame e g =
     render (collide (border_check (integrate (handle_input e (poll_events e (spawn e g))))))"

text \<open>
  The loop \<^verbatim>\<open>for (bool game_active = true; game_active; )\<close> on the frames the
  outside supplies: a quit request lets the current iteration finish and stops
  the loop before the next one.
\<close>

fun run :: "frame_env list \<Rightarrow> game \<Rightarrow> game" where
  "run [] g = g"
| "run (e # es) g = (if game_active g then run es (frame e g) else g)"

section \<open>Concrete inputs used in the examples\<close>

definition zero_rect :: SDL_Rect where
  "zero_rect = \<lparr>rect_x = 0, rect_y = 0, rect_w = 0, rect_h = 0\<rparr>"

definition big_rect :: SDL_Rect where
  "big_rect = \<lparr>rect_x = 0, rect_y = 0, rect_w = 800, rect_h = 600\<rparr>"

text \<open>No key held, no event.\<close>

definition quiet_env :: frame_env where
  "quiet_env = \<lparr>events = [], key_up = False, rnd_interval = 6, rnd_pos = 0,
                 wall_mem1 = zero_rect, wall_mem2 = zero_rect\<rparr>"

text \<open>The up key held.\<close>

definition up_env :: frame_env where
  "up_env = quiet_env\<lparr>key_up := True\<rparr>"

text \<open>As \<open>quiet_env\<close>, but the storage of a new wall happens to hold \<open>big_rect\<close>.\<close>

definition dirty_env :: frame_env where
  "dirty_env = quiet_env\<lparr>wall_mem1 := big_rect\<rparr>"

text \<open>
  Sixty frames in which the bird is kept in the air: the up key in frames 1 and 33.
\<close>

definition flight60 :: "frame_env list" where
  "flight60 = up_env # replicate 31 quiet_env @ up_env # replicate 27 quiet_env"

definition aloft60 :: game where
  "aloft60 = run flight60 (init 128 32 zero_rect)"

definition fallen37 :: game where
  "fallen37 = run (replicate 37 quiet_env) (init 128 32 zero_rect)"

definition left_box :: SDL_Rect where
  "left_box = \<lparr>rect_x = 0, rect_y = 0, rect_w = 10, rect_h = 10\<rparr>"

definition right_box :: SDL_Rect where
  "right_box = \<lparr>rect_x = 10, rect_y = 0, rect_w = 10, rect_h = 10\<rparr>"

definition middle_box :: SDL_Rect where
  "middle_box = \<lparr>rect_x = 5, rect_y = 5, rect_w = 10, rect_h = 10\<rparr>"

text \<open>
  Thirty frames with the up key held and seven without: the next frame without the
  key puts the bird exactly on the upper border, the one after it above the border.
\<close>

definition brink37 :: game where
  "brink37 = run (replicate 30 up_env @ replicate 7 quiet_env) (init 128 32 zero_rect)"

definition over38 :: game where
  "over38 = run (replicate 30 up_env @ replicate 8 quiet_env) (init 128 32 zero_rect)"

definition back53 :: game where
  "back53 = run (replicate 30 up_env @ replicate 23 quiet_env) (init 128 32 zero_rect)"


text \<open>One tap on the up key and 31 frames of falling: the bird ends 9 higher.\<close>

definition glide32 :: "frame_env list" where
  "glide32 = up_env # replicate 31 quiet_env"

text \<open>
  645 frames, twenty such glides and five frames of falling, bring the first pair of
  walls next to the bird.
\<close>

definition approach645 :: game where
  "approach645 =
     run (concat (replicate 20 glide32) @ replicate 5 quiet_env) (init 128 32 zero_rect)"


section \<open>Facts about the phases\<close>

lemma wall_loop_fst:
  "fst (wall_loop pl ws lost) =
     map (\<lambda>w. w\<lparr>Position := pos_add (Position w) (Velocity w)\<rparr>) ws"
  by (induction ws arbitrary: lost) (simp_all add: Let_def case_prod_beta)

lemma wall_loop_snd:
  "snd (wall_loop pl ws lost) \<longleftrightarrow>
     lost \<or> (\<exists>w\<in>set ws. CheckCollision (rect_bits (DestRect w)) (rect_bits (DestRect pl)))"
  by (induction ws arbitrary: lost) (auto simp: Let_def case_prod_beta)

lemma Player_spawn: "Player (spawn e g) = Player g"
  by (simp add: spawn_def Let_def)

lemma GameLost_spawn: "GameLost (spawn e g) = GameLost g"
  by (simp add: spawn_def Let_def)

lemma Player_collide: "Player (collide g) = Player g"
  by (simp add: collide_def case_prod_beta)

lemma Player_render: "Player (render g) = place (Player g)"
  by (simp add: render_def render_player_def animate_def render_walls_def Let_def)

lemma Player_border_check: "Player (border_check g) = Player g"
  by (simp add: border_check_def)

lemma Player_poll_events: "Player (poll_events e g) = Player g"
  by (simp add: poll_events_def)

lemma GameLost_poll_events: "GameLost (poll_events e g) = GameLost g"
  by (simp add: poll_events_def)

lemma Player_integrate_handle_input:
  "Player (integrate (handle_input e (poll_events e (spawn e g))))
     = Player (integrate (handle_input e g))"
  by (simp add: integrate_def handle_input_def poll_events_def Player_spawn GameLost_spawn
      Let_def)

lemma GameLost_integrate: "GameLost (integrate g) = GameLost g"
  by (simp add: integrate_def Let_def)

lemma GameLost_handle_input: "GameLost (handle_input e g) = GameLost g"
  by (simp add: handle_input_def)

lemma GameLost_render: "GameLost (render g) = GameLost g"
  by (simp add: render_def render_player_def animate_def render_walls_def Let_def)

lemma GameLost_collide:
  "GameLost (collide g) \<longleftrightarrow>
     GameLost g \<or> (\<exists>w\<in>set (Walls g).
        CheckCollision (rect_bits (DestRect w)) (rect_bits (DestRect (Player g))))"
  using wall_loop_snd [of "Player g" "Walls g" "GameLost g"]
  by (simp add: collide_def case_prod_beta)

lemma GameLost_border_check:
  "GameLost (border_check g) \<longleftrightarrow>
     GameLost g \<or> snd (Position (Player g)) < - snd (Size (Player g)) / 2
     \<or> snd (Position (Player g)) > int_to_double SCREEN_HEIGHT + snd (Size (Player g)) / 2"
  by (simp add: border_check_def)

lemma Walls_collide:
  "Walls (collide g) =
     map (\<lambda>w. w\<lparr>Position := pos_add (Position w) (Velocity w)\<rparr>) (Walls g)"
  using wall_loop_fst [of "Player g" "Walls g" "GameLost g"]
  by (simp add: collide_def case_prod_beta)

lemma Walls_render: "Walls (render g) = map place (Walls g)"
  by (simp add: render_def render_player_def animate_def render_walls_def Let_def)

lemma Walls_border_check: "Walls (border_check g) = Walls g"
  by (simp add: border_check_def)

lemma Walls_integrate: "Walls (integrate g) = Walls g"
  by (simp add: integrate_def Let_def)

lemma Walls_handle_input: "Walls (handle_input e g) = Walls g"
  by (simp add: handle_input_def)

lemma Walls_poll_events: "Walls (poll_events e g) = Walls g"
  by (simp add: poll_events_def)

lemma DestRect_integrate: "DestRect (Player (integrate g)) = DestRect (Player g)"
  by (simp add: integrate_def Let_def)

lemma DestRect_handle_input: "DestRect (Player (handle_input e g)) = DestRect (Player g)"
  by (simp add: handle_input_def)

lemma Size_integrate: "Size (Player (integrate g)) = Size (Player g)"
  by (simp add: integrate_def Let_def)

lemma Size_handle_input: "Size (Player (handle_input e g)) = Size (Player g)"
  by (simp add: handle_input_def)

lemmas phase_simps =
  Player_spawn GameLost_spawn Player_collide Player_render Player_border_check
  Player_poll_events GameLost_poll_events GameLost_integrate GameLost_handle_input
  GameLost_render Walls_collide Walls_render Walls_border_check Walls_integrate
  Walls_handle_input Walls_poll_events DestRect_integrate DestRect_handle_input
  Size_integrate Size_handle_input

lemma Player_frame:
  "Player (frame e g) = place (Player (integrate (handle_input e g)))"
  by (simp add: frame_def phase_simps Player_integrate_handle_input)

lemma GameLost_frame:
  "GameLost (frame e g) \<longleftrightarrow>
     GameLost (border_check (integrate (handle_input e g)))
     \<or> (\<exists>w\<in>set (Walls (spawn e g)).
           CheckCollision (rect_bits (DestRect w)) (rect_bits (DestRect (Player g))))"
  by (simp add: frame_def phase_simps GameLost_collide GameLost_border_check
      Player_integrate_handle_input)

lemma Walls_frame:
  "Walls (frame e g) =
     map (\<lambda>w. place (w\<lparr>Position := pos_add (Position w) (Velocity w)\<rparr>)) (Walls (spawn e g))"
  by (simp add: frame_def phase_simps comp_def)

lemma run_inactive: "\<not> game_active g \<Longrightarrow> run es g = g"
  by (cases es) simp_all

lemma run_append: "run (es1 @ es2) g = run es2 (run es1 g)"
  by (induction es1 arbitrary: g) (simp_all add: run_inactive)

lemma run_invariant:
  assumes "P g" and "\<And>e g. P g \<Longrightarrow> P (frame e g)"
  shows "P (run es g)"
  using assms(1) by (induction es arbitrary: g) (simp_all add: assms(2))

lemma run_replicate_numeral:
  "run (replicate (numeral k) e) g =
     (if game_active g then run (replicate (pred_numeral k) e) (frame e g) else g)"
  by (simp add: numeral_eq_Suc)

lemma DeltaTime_value: "DeltaTime = 4803839602528529 / 288230376151711744"
  by (simp add: DeltaTime_def to_double_def round_to_def round_even_def binade_def bits.simps
      Let_def)

section \<open>The timer step inside a binade\<close>

text \<open>
  While the timer stays inside one binade, the two roundings of
  \<^verbatim>\<open>GameTime += DeltaTime\<close> add a fixed number of units in the last place of the
  \<^verbatim>\<open>float\<close>. The lemmas below derive that number from the definitions for the
  binades from 1/16 to 16; they are used to evaluate long runs.
\<close>

lemma bits_between: "2 ^ k \<le> n \<Longrightarrow> n < 2 ^ Suc k \<Longrightarrow> bits n = Suc k"
proof (induction k arbitrary: n)
  case 0
  then have "n = 1" by simp
  then show ?case by (simp add: bits.simps)
next
  case (Suc k)
  from Suc.prems have "2 ^ k \<le> n div 2" "n div 2 < 2 ^ Suc k" "n \<noteq> 0"
    by auto
  with Suc.IH [of "n div 2"] show ?case
    by (subst bits.simps) simp
qed

lemma binade_ge_1:
  assumes "2 ^ k \<le> x" and "x < 2 ^ Suc k"
  shows "binade x = int k"
proof -
  have one: "1 \<le> x"
    using assms(1) one_le_power [of "2::real" k] by linarith
  have "(2::int) ^ k \<le> \<lfloor>x\<rfloor>"
    using assms(1) by (simp add: le_floor_iff)
  moreover have "\<lfloor>x\<rfloor> < 2 ^ Suc k"
    using assms(2) by (simp add: floor_less_iff)
  ultimately have "int (2 ^ k) \<le> int (nat \<lfloor>x\<rfloor>)" "int (nat \<lfloor>x\<rfloor>) < int (2 ^ Suc k)"
    using one by simp_all
  then have "2 ^ k \<le> nat \<lfloor>x\<rfloor>" "nat \<lfloor>x\<rfloor> < 2 ^ Suc k"
    by (simp_all only: of_nat_le_iff of_nat_less_iff)
  then have "bits (nat \<lfloor>x\<rfloor>) = Suc k"
    by (rule bits_between)
  with one show ?thesis
    by (simp add: binade_def)
qed

lemma binade_lt_1:
  assumes "1 / 2 ^ Suc k \<le> x" and "x < 1 / 2 ^ k"
  shows "binade x = - int (Suc k)"
proof -
  have pos: "0 < x"
    using assms(1) by (smt (verit) zero_less_divide_1_iff zero_less_power)
  have "1 / 2 ^ k \<le> (1::real)"
    by simp
  with assms(2) have less: "x < 1" by linarith
  have up: "1 / x \<le> 2 ^ Suc k"
    using assms(1) pos by (simp add: field_simps)
  have low: "2 ^ k < 1 / x"
    using assms(2) pos by (simp add: field_simps)
  have "\<lceil>1 / x\<rceil> \<le> 2 ^ Suc k"
    using up by (simp add: ceiling_le_iff)
  moreover have "(2::int) ^ k < \<lceil>1 / x\<rceil>"
    using low by (simp add: less_ceiling_iff)
  ultimately have "int (2 ^ k) \<le> int (nat (\<lceil>1 / x\<rceil> - 1))"
    "int (nat (\<lceil>1 / x\<rceil> - 1)) < int (2 ^ Suc k)"
    using pos by simp_all
  then have "2 ^ k \<le> nat (\<lceil>1 / x\<rceil> - 1)" "nat (\<lceil>1 / x\<rceil> - 1) < 2 ^ Suc k"
    by (simp_all only: of_nat_le_iff of_nat_less_iff)
  then have "bits (nat (\<lceil>1 / x\<rceil> - 1)) = Suc k"
    by (rule bits_between)
  with less show ?thesis
    by (simp add: binade_def)
qed

lemma round_to_scaled:
  assumes "0 < x" and "binade x = E"
    and "u = (if 0 \<le> E - (int p - 1) then 2 ^ nat (E - (int p - 1))
              else 1 / 2 ^ nat (- (E - (int p - 1))))"
  shows "round_to p x = real_of_int (round_even (x / u)) * u"
  using assms by (simp add: round_to_def Let_def)

lemma round_even_shift_even:
  "even i \<Longrightarrow> round_even (real_of_int i + q) = i + round_even q"
  by (simp add: round_even_def Let_def add.commute [of "real_of_int i"])

lemma round_even_shift:
  "q - real_of_int \<lfloor>q\<rfloor> \<noteq> 1 / 2 \<Longrightarrow> round_even (real_of_int i + q) = i + round_even q"
  by (simp add: round_even_def Let_def add.commute [of "real_of_int i"])

lemma next_time_grid:
  fixes M c R :: int and ud uf lo t :: real
  assumes dbl: "\<And>x. lo \<le> x \<Longrightarrow> x < 2 * lo
                  \<Longrightarrow> to_double x = real_of_int (round_even (x / ud)) * ud"
    and flt: "\<And>x. lo \<le> x \<Longrightarrow> x < 2 * lo
                  \<Longrightarrow> to_float x = real_of_int (round_even (x / uf)) * uf"
    and ud: "0 < ud" and uf: "uf = ud * 2 ^ 29" and lo: "lo = ud * 2 ^ 52"
    and t: "t = real_of_int M * uf" and M1: "2 ^ 23 \<le> M" and M2: "M + c < 2 ^ 24"
    and R: "round_even (DeltaTime / ud) = R" and R0: "0 \<le> R" and R1: "R < (c + 1) * 2 ^ 29"
    and D1: "DeltaTime / ud < real_of_int ((c + 1) * 2 ^ 29)" and D0: "0 \<le> DeltaTime"
    and c: "round_even (real_of_int R / 2 ^ 29) = c"
    and nt: "real_of_int R / 2 ^ 29 - real_of_int \<lfloor>real_of_int R / 2 ^ 29\<rfloor> \<noteq> 1 / 2"
  shows "next_time t = real_of_int (M + c) * uf"
proof -
  define x where "x = t + DeltaTime"
  define y where "y = real_of_int (M * 2 ^ 29 + R) * ud"
  have Mr: "(2::real) ^ 23 \<le> real_of_int M"
    using M1 by (metis of_int_le_iff of_int_numeral of_int_power)
  have Mc: "real_of_int M + real_of_int c + 1 \<le> 2 ^ 24"
  proof -
    from M2 have "M + c + 1 \<le> 2 ^ 24" by simp
    then have "real_of_int (M + c + 1) \<le> real_of_int (2 ^ 24)"
      by (simp only: of_int_le_iff)
    then show ?thesis by simp
  qed
  have xd: "x / ud = real_of_int (M * 2 ^ 29) + DeltaTime / ud"
    using ud by (simp add: x_def t uf field_simps)
  have "0 \<le> DeltaTime / ud"
    using D0 ud by simp
  then have "2 ^ 52 \<le> x / ud"
    using Mr unfolding xd by simp
  then have x_lo: "lo \<le> x"
    using ud by (simp add: lo field_simps)
  have "x / ud < (real_of_int M + real_of_int c + 1) * 2 ^ 29"
    using D1 unfolding xd by (simp add: algebra_simps)
  also have "\<dots> \<le> 2 ^ 24 * 2 ^ 29"
    using Mc by (simp only: mult_le_cancel_right_pos zero_less_power zero_less_numeral)
  finally have "x / ud < 2 ^ 53" by simp
  then have x_hi: "x < 2 * lo"
    using ud by (simp add: lo field_simps)
  have "even (M * 2 ^ 29)" by simp
  then have "round_even (x / ud) = M * 2 ^ 29 + R"
    unfolding xd by (simp only: round_even_shift_even R)
  with dbl [OF x_lo x_hi] have dx: "to_double x = y"
    by (simp add: y_def)
  have yd: "y / ud = real_of_int (M * 2 ^ 29 + R)"
    using ud by (simp add: y_def)
  have "2 ^ 52 \<le> y / ud"
    using Mr R0 unfolding yd by simp
  then have y_lo: "lo \<le> y"
    using ud by (simp add: lo field_simps)
  have "real_of_int R < (real_of_int c + 1) * 2 ^ 29"
  proof -
    from R1 have "real_of_int R < real_of_int ((c + 1) * 2 ^ 29)"
      by (simp only: of_int_less_iff)
    then show ?thesis by simp
  qed
  then have "y / ud < (real_of_int M + real_of_int c + 1) * 2 ^ 29"
    unfolding yd by (simp add: algebra_simps)
  also have "\<dots> \<le> 2 ^ 24 * 2 ^ 29"
    using Mc by (simp only: mult_le_cancel_right_pos zero_less_power zero_less_numeral)
  finally have "y / ud < 2 ^ 53" by simp
  then have y_hi: "y < 2 * lo"
    using ud by (simp add: lo field_simps)
  have yf: "y / uf = real_of_int M + real_of_int R / 2 ^ 29"
    using ud by (simp add: y_def uf field_simps)
  have "round_even (y / uf) = M + c"
    unfolding yf by (simp only: round_even_shift [OF nt] c)
  with flt [OF y_lo y_hi] have "to_float y = real_of_int (M + c) * uf"
    by simp
  then show ?thesis
    by (simp add: next_time_def x_def [symmetric] dx)
qed

lemma DeltaTime_nonneg: "0 \<le> DeltaTime"
  by (simp add: DeltaTime_value)

lemma next_time_binade_m4:
  assumes "t * 134217728 \<in> \<int>" and "1 / 16 \<le> t" and "t \<le> 14540253 / 134217728"
  shows "next_time t = t + 2236962 / 134217728"
proof -
  from assms(1) obtain M where "t * 134217728 = real_of_int M"
    by (auto elim: Ints_cases)
  then have t: "t = real_of_int M * ((1 / 2 ^ 56) * 2 ^ 29)"
    by simp
  have M1: "2 ^ 23 \<le> M" and M2: "M + 2236962 < 2 ^ 24"
    using assms(2,3) unfolding t by simp_all
  have dbl: "to_double x = real_of_int (round_even (x / (1 / 2 ^ 56))) * (1 / 2 ^ 56)"
    if "(1 / 2 ^ 56) * 2 ^ 52 \<le> x" "x < 2 * ((1 / 2 ^ 56) * 2 ^ 52)" for x :: real
    unfolding to_double_def using that binade_lt_1 [of 3 x]
    by (intro round_to_scaled [where E = "- 4"]) simp_all
  have flt: "to_float x = real_of_int (round_even (x / ((1 / 2 ^ 56) * 2 ^ 29)))
      * ((1 / 2 ^ 56) * 2 ^ 29)"
    if "(1 / 2 ^ 56) * 2 ^ 52 \<le> x" "x < 2 * ((1 / 2 ^ 56) * 2 ^ 52)" for x :: real
    unfolding to_float_def using that binade_lt_1 [of 3 x]
    by (intro round_to_scaled [where E = "- 4"]) simp_all
  have "next_time t = real_of_int (M + 2236962) * ((1 / 2 ^ 56) * 2 ^ 29)"
    using dbl flt _ refl refl t M1 M2
  proof (rule next_time_grid [where R = 1200959900632132])
    show "round_even (DeltaTime / (1 / 2 ^ 56)) = 1200959900632132"
      by (simp add: DeltaTime_value round_even_def)
    show "round_even (real_of_int 1200959900632132 / 2 ^ 29) = 2236962"
      by (simp add: round_even_def)
    show "real_of_int 1200959900632132 / 2 ^ 29
        - real_of_int \<lfloor>real_of_int 1200959900632132 / 2 ^ 29\<rfloor> \<noteq> 1 / 2"
      by simp
    show "DeltaTime / (1 / 2 ^ 56) < real_of_int ((2236962 + 1) * 2 ^ 29)"
      by (simp add: DeltaTime_value)
  qed (simp_all add: DeltaTime_nonneg)
  then show ?thesis
    by (simp add: t)
qed

lemma next_time_binade_m3:
  assumes "t * 67108864 \<in> \<int>" and "1 / 8 \<le> t" and "t \<le> 15658734 / 67108864"
  shows "next_time t = t + 1118481 / 67108864"
proof -
  from assms(1) obtain M where "t * 67108864 = real_of_int M"
    by (auto elim: Ints_cases)
  then have t: "t = real_of_int M * ((1 / 2 ^ 55) * 2 ^ 29)"
    by simp
  have M1: "2 ^ 23 \<le> M" and M2: "M + 1118481 < 2 ^ 24"
    using assms(2,3) unfolding t by simp_all
  have dbl: "to_double x = real_of_int (round_even (x / (1 / 2 ^ 55))) * (1 / 2 ^ 55)"
    if "(1 / 2 ^ 55) * 2 ^ 52 \<le> x" "x < 2 * ((1 / 2 ^ 55) * 2 ^ 52)" for x :: real
    unfolding to_double_def using that binade_lt_1 [of 2 x]
    by (intro round_to_scaled [where E = "- 3"]) simp_all
  have flt: "to_float x = real_of_int (round_even (x / ((1 / 2 ^ 55) * 2 ^ 29)))
      * ((1 / 2 ^ 55) * 2 ^ 29)"
    if "(1 / 2 ^ 55) * 2 ^ 52 \<le> x" "x < 2 * ((1 / 2 ^ 55) * 2 ^ 52)" for x :: real
    unfolding to_float_def using that binade_lt_1 [of 2 x]
    by (intro round_to_scaled [where E = "- 3"]) simp_all
  have "next_time t = real_of_int (M + 1118481) * ((1 / 2 ^ 55) * 2 ^ 29)"
    using dbl flt _ refl refl t M1 M2
  proof (rule next_time_grid [where R = 600479950316066])
    show "round_even (DeltaTime / (1 / 2 ^ 55)) = 600479950316066"
      by (simp add: DeltaTime_value round_even_def)
    show "round_even (real_of_int 600479950316066 / 2 ^ 29) = 1118481"
      by (simp add: round_even_def)
    show "real_of_int 600479950316066 / 2 ^ 29
        - real_of_int \<lfloor>real_of_int 600479950316066 / 2 ^ 29\<rfloor> \<noteq> 1 / 2"
      by simp
    show "DeltaTime / (1 / 2 ^ 55) < real_of_int ((1118481 + 1) * 2 ^ 29)"
      by (simp add: DeltaTime_value)
  qed (simp_all add: DeltaTime_nonneg)
  then show ?thesis
    by (simp add: t)
qed

lemma next_time_binade_m2:
  assumes "t * 33554432 \<in> \<int>" and "1 / 4 \<le> t" and "t \<le> 16217974 / 33554432"
  shows "next_time t = t + 559241 / 33554432"
proof -
  from assms(1) obtain M where "t * 33554432 = real_of_int M"
    by (auto elim: Ints_cases)
  then have t: "t = real_of_int M * ((1 / 2 ^ 54) * 2 ^ 29)"
    by simp
  have M1: "2 ^ 23 \<le> M" and M2: "M + 559241 < 2 ^ 24"
    using assms(2,3) unfolding t by simp_all
  have dbl: "to_double x = real_of_int (round_even (x / (1 / 2 ^ 54))) * (1 / 2 ^ 54)"
    if "(1 / 2 ^ 54) * 2 ^ 52 \<le> x" "x < 2 * ((1 / 2 ^ 54) * 2 ^ 52)" for x :: real
    unfolding to_double_def using that binade_lt_1 [of 1 x]
    by (intro round_to_scaled [where E = "- 2"]) simp_all
  have flt: "to_float x = real_of_int (round_even (x / ((1 / 2 ^ 54) * 2 ^ 29)))
      * ((1 / 2 ^ 54) * 2 ^ 29)"
    if "(1 / 2 ^ 54) * 2 ^ 52 \<le> x" "x < 2 * ((1 / 2 ^ 54) * 2 ^ 52)" for x :: real
    unfolding to_float_def using that binade_lt_1 [of 1 x]
    by (intro round_to_scaled [where E = "- 2"]) simp_all
  have "next_time t = real_of_int (M + 559241) * ((1 / 2 ^ 54) * 2 ^ 29)"
    using dbl flt _ refl refl t M1 M2
  proof (rule next_time_grid [where R = 300239975158033])
    show "round_even (DeltaTime / (1 / 2 ^ 54)) = 300239975158033"
      by (simp add: DeltaTime_value round_even_def)
    show "round_even (real_of_int 300239975158033 / 2 ^ 29) = 559241"
      by (simp add: round_even_def)
    show "real_of_int 300239975158033 / 2 ^ 29
        - real_of_int \<lfloor>real_of_int 300239975158033 / 2 ^ 29\<rfloor> \<noteq> 1 / 2"
      by simp
    show "DeltaTime / (1 / 2 ^ 54) < real_of_int ((559241 + 1) * 2 ^ 29)"
      by (simp add: DeltaTime_value)
  qed (simp_all add: DeltaTime_nonneg)
  then show ?thesis
    by (simp add: t)
qed

lemma next_time_binade_m1:
  assumes "t * 16777216 \<in> \<int>" and "1 / 2 \<le> t" and "t \<le> 16497595 / 16777216"
  shows "next_time t = t + 279620 / 16777216"
proof -
  from assms(1) obtain M where "t * 16777216 = real_of_int M"
    by (auto elim: Ints_cases)
  then have t: "t = real_of_int M * ((1 / 2 ^ 53) * 2 ^ 29)"
    by simp
  have M1: "2 ^ 23 \<le> M" and M2: "M + 279620 < 2 ^ 24"
    using assms(2,3) unfolding t by simp_all
  have dbl: "to_double x = real_of_int (round_even (x / (1 / 2 ^ 53))) * (1 / 2 ^ 53)"
    if "(1 / 2 ^ 53) * 2 ^ 52 \<le> x" "x < 2 * ((1 / 2 ^ 53) * 2 ^ 52)" for x :: real
    unfolding to_double_def using that binade_lt_1 [of 0 x]
    by (intro round_to_scaled [where E = "- 1"]) simp_all
  have flt: "to_float x = real_of_int (round_even (x / ((1 / 2 ^ 53) * 2 ^ 29)))
      * ((1 / 2 ^ 53) * 2 ^ 29)"
    if "(1 / 2 ^ 53) * 2 ^ 52 \<le> x" "x < 2 * ((1 / 2 ^ 53) * 2 ^ 52)" for x :: real
    unfolding to_float_def using that binade_lt_1 [of 0 x]
    by (intro round_to_scaled [where E = "- 1"]) simp_all
  have "next_time t = real_of_int (M + 279620) * ((1 / 2 ^ 53) * 2 ^ 29)"
    using dbl flt _ refl refl t M1 M2
  proof (rule next_time_grid [where R = 150119987579017])
    show "round_even (DeltaTime / (1 / 2 ^ 53)) = 150119987579017"
      by (simp add: DeltaTime_value round_even_def)
    show "round_even (real_of_int 150119987579017 / 2 ^ 29) = 279620"
      by (simp add: round_even_def)
    show "real_of_int 150119987579017 / 2 ^ 29
        - real_of_int \<lfloor>real_of_int 150119987579017 / 2 ^ 29\<rfloor> \<noteq> 1 / 2"
      by simp
    show "DeltaTime / (1 / 2 ^ 53) < real_of_int ((279620 + 1) * 2 ^ 29)"
      by (simp add: DeltaTime_value)
  qed (simp_all add: DeltaTime_nonneg)
  then show ?thesis
    by (simp add: t)
qed

lemma next_time_binade_0:
  assumes "t * 8388608 \<in> \<int>" and "1 \<le> t" and "t \<le> 16637405 / 8388608"
  shows "next_time t = t + 139810 / 8388608"
proof -
  from assms(1) obtain M where "t * 8388608 = real_of_int M"
    by (auto elim: Ints_cases)
  then have t: "t = real_of_int M * ((1 / 2 ^ 52) * 2 ^ 29)"
    by simp
  have M1: "2 ^ 23 \<le> M" and M2: "M + 139810 < 2 ^ 24"
    using assms(2,3) unfolding t by simp_all
  have dbl: "to_double x = real_of_int (round_even (x / (1 / 2 ^ 52))) * (1 / 2 ^ 52)"
    if "(1 / 2 ^ 52) * 2 ^ 52 \<le> x" "x < 2 * ((1 / 2 ^ 52) * 2 ^ 52)" for x :: real
    unfolding to_double_def using that binade_ge_1 [of 0 x]
    by (intro round_to_scaled [where E = "0"]) simp_all
  have flt: "to_float x = real_of_int (round_even (x / ((1 / 2 ^ 52) * 2 ^ 29)))
      * ((1 / 2 ^ 52) * 2 ^ 29)"
    if "(1 / 2 ^ 52) * 2 ^ 52 \<le> x" "x < 2 * ((1 / 2 ^ 52) * 2 ^ 52)" for x :: real
    unfolding to_float_def using that binade_ge_1 [of 0 x]
    by (intro round_to_scaled [where E = "0"]) simp_all
  have "next_time t = real_of_int (M + 139810) * ((1 / 2 ^ 52) * 2 ^ 29)"
    using dbl flt _ refl refl t M1 M2
  proof (rule next_time_grid [where R = 75059993789508])
    show "round_even (DeltaTime / (1 / 2 ^ 52)) = 75059993789508"
      by (simp add: DeltaTime_value round_even_def)
    show "round_even (real_of_int 75059993789508 / 2 ^ 29) = 139810"
      by (simp add: round_even_def)
    show "real_of_int 75059993789508 / 2 ^ 29
        - real_of_int \<lfloor>real_of_int 75059993789508 / 2 ^ 29\<rfloor> \<noteq> 1 / 2"
      by simp
    show "DeltaTime / (1 / 2 ^ 52) < real_of_int ((139810 + 1) * 2 ^ 29)"
      by (simp add: DeltaTime_value)
  qed (simp_all add: DeltaTime_nonneg)
  then show ?thesis
    by (simp add: t)
qed

lemma next_time_binade_1:
  assumes "t * 4194304 \<in> \<int>" and "2 \<le> t" and "t \<le> 16707310 / 4194304"
  shows "next_time t = t + 69905 / 4194304"
proof -
  from assms(1) obtain M where "t * 4194304 = real_of_int M"
    by (auto elim: Ints_cases)
  then have t: "t = real_of_int M * ((2 ^ 1 / 2 ^ 52) * 2 ^ 29)"
    by simp
  have M1: "2 ^ 23 \<le> M" and M2: "M + 69905 < 2 ^ 24"
    using assms(2,3) unfolding t by simp_all
  have dbl: "to_double x = real_of_int (round_even (x / (2 ^ 1 / 2 ^ 52))) * (2 ^ 1 / 2 ^ 52)"
    if "(2 ^ 1 / 2 ^ 52) * 2 ^ 52 \<le> x" "x < 2 * ((2 ^ 1 / 2 ^ 52) * 2 ^ 52)" for x :: real
    unfolding to_double_def using that binade_ge_1 [of 1 x]
    by (intro round_to_scaled [where E = "1"]) simp_all
  have flt: "to_float x = real_of_int (round_even (x / ((2 ^ 1 / 2 ^ 52) * 2 ^ 29)))
      * ((2 ^ 1 / 2 ^ 52) * 2 ^ 29)"
    if "(2 ^ 1 / 2 ^ 52) * 2 ^ 52 \<le> x" "x < 2 * ((2 ^ 1 / 2 ^ 52) * 2 ^ 52)" for x :: real
    unfolding to_float_def using that binade_ge_1 [of 1 x]
    by (intro round_to_scaled [where E = "1"]) simp_all
  have "next_time t = real_of_int (M + 69905) * ((2 ^ 1 / 2 ^ 52) * 2 ^ 29)"
    using dbl flt _ refl refl t M1 M2
  proof (rule next_time_grid [where R = 37529996894754])
    show "round_even (DeltaTime / (2 ^ 1 / 2 ^ 52)) = 37529996894754"
      by (simp add: DeltaTime_value round_even_def)
    show "round_even (real_of_int 37529996894754 / 2 ^ 29) = 69905"
      by (simp add: round_even_def)
    show "real_of_int 37529996894754 / 2 ^ 29
        - real_of_int \<lfloor>real_of_int 37529996894754 / 2 ^ 29\<rfloor> \<noteq> 1 / 2"
      by simp
    show "DeltaTime / (2 ^ 1 / 2 ^ 52) < real_of_int ((69905 + 1) * 2 ^ 29)"
      by (simp add: DeltaTime_value)
  qed (simp_all add: DeltaTime_nonneg)
  then show ?thesis
    by (simp add: t)
qed

lemma next_time_binade_2:
  assumes "t * 2097152 \<in> \<int>" and "4 \<le> t" and "t \<le> 16742262 / 2097152"
  shows "next_time t = t + 34953 / 2097152"
proof -
  from assms(1) obtain M where "t * 2097152 = real_of_int M"
    by (auto elim: Ints_cases)
  then have t: "t = real_of_int M * ((2 ^ 2 / 2 ^ 52) * 2 ^ 29)"
    by simp
  have M1: "2 ^ 23 \<le> M" and M2: "M + 34953 < 2 ^ 24"
    using assms(2,3) unfolding t by simp_all
  have dbl: "to_double x = real_of_int (round_even (x / (2 ^ 2 / 2 ^ 52))) * (2 ^ 2 / 2 ^ 52)"
    if "(2 ^ 2 / 2 ^ 52) * 2 ^ 52 \<le> x" "x < 2 * ((2 ^ 2 / 2 ^ 52) * 2 ^ 52)" for x :: real
    unfolding to_double_def using that binade_ge_1 [of 2 x]
    by (intro round_to_scaled [where E = "2"]) simp_all
  have flt: "to_float x = real_of_int (round_even (x / ((2 ^ 2 / 2 ^ 52) * 2 ^ 29)))
      * ((2 ^ 2 / 2 ^ 52) * 2 ^ 29)"
    if "(2 ^ 2 / 2 ^ 52) * 2 ^ 52 \<le> x" "x < 2 * ((2 ^ 2 / 2 ^ 52) * 2 ^ 52)" for x :: real
    unfolding to_float_def using that binade_ge_1 [of 2 x]
    by (intro round_to_scaled [where E = "2"]) simp_all
  have "next_time t = real_of_int (M + 34953) * ((2 ^ 2 / 2 ^ 52) * 2 ^ 29)"
    using dbl flt _ refl refl t M1 M2
  proof (rule next_time_grid [where R = 18764998447377])
    show "round_even (DeltaTime / (2 ^ 2 / 2 ^ 52)) = 18764998447377"
      by (simp add: DeltaTime_value round_even_def)
    show "round_even (real_of_int 18764998447377 / 2 ^ 29) = 34953"
      by (simp add: round_even_def)
    show "real_of_int 18764998447377 / 2 ^ 29
        - real_of_int \<lfloor>real_of_int 18764998447377 / 2 ^ 29\<rfloor> \<noteq> 1 / 2"
      by simp
    show "DeltaTime / (2 ^ 2 / 2 ^ 52) < real_of_int ((34953 + 1) * 2 ^ 29)"
      by (simp add: DeltaTime_value)
  qed (simp_all add: DeltaTime_nonneg)
  then show ?thesis
    by (simp add: t)
qed

lemma next_time_binade_3:
  assumes "t * 1048576 \<in> \<int>" and "8 \<le> t" and "t \<le> 16759739 / 1048576"
  shows "next_time t = t + 17476 / 1048576"
proof -
  from assms(1) obtain M where "t * 1048576 = real_of_int M"
    by (auto elim: Ints_cases)
  then have t: "t = real_of_int M * ((2 ^ 3 / 2 ^ 52) * 2 ^ 29)"
    by simp
  have M1: "2 ^ 23 \<le> M" and M2: "M + 17476 < 2 ^ 24"
    using assms(2,3) unfolding t by simp_all
  have dbl: "to_double x = real_of_int (round_even (x / (2 ^ 3 / 2 ^ 52))) * (2 ^ 3 / 2 ^ 52)"
    if "(2 ^ 3 / 2 ^ 52) * 2 ^ 52 \<le> x" "x < 2 * ((2 ^ 3 / 2 ^ 52) * 2 ^ 52)" for x :: real
    unfolding to_double_def using that binade_ge_1 [of 3 x]
    by (intro round_to_scaled [where E = "3"]) simp_all
  have flt: "to_float x = real_of_int (round_even (x / ((2 ^ 3 / 2 ^ 52) * 2 ^ 29)))
      * ((2 ^ 3 / 2 ^ 52) * 2 ^ 29)"
    if "(2 ^ 3 / 2 ^ 52) * 2 ^ 52 \<le> x" "x < 2 * ((2 ^ 3 / 2 ^ 52) * 2 ^ 52)" for x :: real
    unfolding to_float_def using that binade_ge_1 [of 3 x]
    by (intro round_to_scaled [where E = "3"]) simp_all
  have "next_time t = real_of_int (M + 17476) * ((2 ^ 3 / 2 ^ 52) * 2 ^ 29)"
    using dbl flt _ refl refl t M1 M2
  proof (rule next_time_grid [where R = 9382499223689])
    show "round_even (DeltaTime / (2 ^ 3 / 2 ^ 52)) = 9382499223689"
      by (simp add: DeltaTime_value round_even_def)
    show "round_even (real_of_int 9382499223689 / 2 ^ 29) = 17476"
      by (simp add: round_even_def)
    show "real_of_int 9382499223689 / 2 ^ 29
        - real_of_int \<lfloor>real_of_int 9382499223689 / 2 ^ 29\<rfloor> \<noteq> 1 / 2"
      by simp
    show "DeltaTime / (2 ^ 3 / 2 ^ 52) < real_of_int ((17476 + 1) * 2 ^ 29)"
      by (simp add: DeltaTime_value)
  qed (simp_all add: DeltaTime_nonneg)
  then show ?thesis
    by (simp add: t)
qed

lemma next_time_fast:
  "next_time t =
       (if t * 1048576 \<in> \<int> \<and> 8 \<le> t \<and> t \<le> 16759739 / 1048576 then t + 17476 / 1048576
        else         if t * 2097152 \<in> \<int> \<and> 4 \<le> t \<and> t \<le> 16742262 / 2097152 then t + 34953 / 2097152
        else         if t * 4194304 \<in> \<int> \<and> 2 \<le> t \<and> t \<le> 16707310 / 4194304 then t + 69905 / 4194304
        else         if t * 8388608 \<in> \<int> \<and> 1 \<le> t \<and> t \<le> 16637405 / 8388608 then t + 139810 / 8388608
        else         if t * 16777216 \<in> \<int> \<and> 1 / 2 \<le> t \<and> t \<le> 16497595 / 16777216 then t + 279620 / 16777216
        else         if t * 33554432 \<in> \<int> \<and> 1 / 4 \<le> t \<and> t \<le> 16217974 / 33554432 then t + 559241 / 33554432
        else         if t * 67108864 \<in> \<int> \<and> 1 / 8 \<le> t \<and> t \<le> 15658734 / 67108864 then t + 1118481 / 67108864
        else         if t * 134217728 \<in> \<int> \<and> 1 / 16 \<le> t \<and> t \<le> 14540253 / 134217728 then t + 2236962 / 134217728
        else to_float (to_double (t + DeltaTime)))"
proof -
  have fold: "to_float (to_double (t + DeltaTime)) = next_time t"
    by (simp add: next_time_def)
  show ?thesis
    unfolding fold
    using next_time_binade_m4 [of t]
      next_time_binade_m3 [of t]
      next_time_binade_m2 [of t]
      next_time_binade_m1 [of t]
      next_time_binade_0 [of t]
      next_time_binade_1 [of t]
      next_time_binade_2 [of t]
      next_time_binade_3 [of t]
    by (simp split: if_splits)
qed

lemmas timer_eval =
  next_time_fast DeltaTime_value next_interval_def to_double_def to_float_def round_to_def
  round_even_def binade_def bits.simps Let_def

lemmas eval_defs =
  frame_def render_def render_player_def animate_def render_walls_def collide_def
  border_check_def integrate_def handle_input_def poll_events_def spawn_def init_def
  timer_eval int_to_double_def c_div_def SCREEN_WIDTH_def SCREEN_HEIGHT_def
  signed_divide_int_def place_def dest_rect_of_def double_to_int_def pos_add_def
  GetWall_def CheckCollision_def zero_rect_def big_rect_def quiet_env_def up_env_def
  dirty_env_def run_replicate_numeral

lemma funpow_numeral: "(f ^^ numeral k) x = (f ^^ pred_numeral k) (f x)"
  by (simp add: numeral_eq_Suc funpow_swap1)

text \<open>
  The timer passes 1 in frame 61 and 7 in frame 420, not in frame 421: sixty steps
  stay below 1, and 420 steps end above 7.
\<close>

lemma timer_spawn_frames:
  "(next_time ^^ 60) 0 = 16777211 / 16777216 \<and> 1 < (next_time ^^ 61) 0
   \<and> (next_time ^^ 419) 0 \<le> 7 \<and> 7 < (next_time ^^ 420) 0"
  by (simp add: funpow_numeral timer_eval)

text \<open>
  A sum that rounds onto the threshold does not pass it: from 8552175/16384 the timer
  goes to 522 exactly, and with \<open>Interval = 522\<close> nothing is spawned.
\<close>

lemma timer_rounds_onto_interval:
  "next_time (8552175 / 16384) = 522
   \<and> Walls (spawn e (g\<lparr>GameTime := 8552175 / 16384, Interval := 522\<rparr>)) = Walls g"
  by (simp add: spawn_def timer_eval)

text \<open>The cast at the ends of the range of \<^verbatim>\<open>int\<close>.\<close>

lemma double_to_int_range:
  "double_to_int (2147483647 + 1 / 2) = 2147483647
   \<and> double_to_int 2147483648 = INT_MIN
   \<and> double_to_int (- 2147483648 - 1 / 2) = INT_MIN
   \<and> double_to_int (- 2147483649) = INT_MIN
   \<and> double_to_int (- 3 / 2) = - 1"
  by (simp add: double_to_int_def INT_MIN_def)

lemma init_position: "Position (Player (init tw th mem)) = (200, 300)"
  by (simp add: init_def int_to_double_def c_div_def SCREEN_WIDTH_def SCREEN_HEIGHT_def
      signed_divide_int_def)

section \<open>The horizontal coordinates of the player\<close>

lemma player_x_frame:
  "fst (Position (Player g)) = 200 \<and> fst (Velocity (Player g)) = 0
   \<Longrightarrow> fst (Position (Player (frame e g))) = 200 \<and> fst (Velocity (Player (frame e g))) = 0"
  by (simp add: Player_frame place_def integrate_def handle_input_def pos_add_def Let_def)

text \<open>
  C10. In every state the loop reaches, the player's horizontal position is 200
  (the initial value SCREEN_WIDTH / 4) and the player's horizontal velocity is 0.
\<close>

theorem player_horizontal_constant:
  "fst (Position (Player (run es (init tw th mem)))) = int_to_double (c_div SCREEN_WIDTH 4)
   \<and> int_to_double (c_div SCREEN_WIDTH 4) = 200
   \<and> fst (Velocity (Player (run es (init tw th mem)))) = 0"
proof -
  have "fst (Position (Player (run es (init tw th mem)))) = 200
        \<and> fst (Velocity (Player (run es (init tw th mem)))) = 0"
  proof (rule run_invariant)
    show "fst (Position (Player (init tw th mem))) = 200
          \<and> fst (Velocity (Player (init tw th mem))) = 0"
      by (simp add: init_position) (simp add: init_def)
  qed (rule player_x_frame)
  moreover have "int_to_double (c_div SCREEN_WIDTH 4) = 200"
    by (simp add: int_to_double_def c_div_def SCREEN_WIDTH_def signed_divide_int_def)
  ultimately show ?thesis by simp
qed

theorem player_horizontal_constant_witness:
  "fst (Position (Player (run flight60 (init 128 32 zero_rect)))) = 200
   \<and> fst (Velocity (Player (run flight60 (init 128 32 zero_rect)))) = 0"
  using player_horizontal_constant [of flight60 128 32 zero_rect] by simp

section \<open>The collision predicate\<close>

text \<open>
  C5. CheckCollision returns true exactly when bottomA > topB, topA < bottomB,
  rightA > leftB and leftA < rightB, all four strict, with left = x, right = x + w,
  top = y, bottom = y + h in the arithmetic of int; rectangles that share only an
  edge coordinate do not collide; and the predicate is symmetric.
\<close>

theorem CheckCollision_strict_overlap:
  "(CheckCollision a b \<longleftrightarrow>
      sint (rect_y a + rect_h a) > sint (rect_y b)
      \<and> sint (rect_y a) < sint (rect_y b + rect_h b)
      \<and> sint (rect_x a + rect_w a) > sint (rect_x b)
      \<and> sint (rect_x a) < sint (rect_x b + rect_w b))
   \<and> (rect_x a + rect_w a = rect_x b \<or> rect_x b + rect_w b = rect_x a
        \<or> rect_y a + rect_h a = rect_y b \<or> rect_y b + rect_h b = rect_y a
       \<longrightarrow> \<not> CheckCollision a b)
   \<and> CheckCollision a b = CheckCollision b a"
  by (auto simp: CheckCollision_def Let_def)

lemma aloft60_eval:
  "aloft60 =
    \<lparr>Player = \<lparr>Position = (200, 255), Velocity = (0, 6), Size = (32, 32),
                DestRect = Assigned \<lparr>rect_x = 184, rect_y = 239, rect_w = 32, rect_h = 32\<rparr>\<rparr>,
     Score = 0, GameTime = 16777211 / 16777216, Interval = 1, Walls = [], GameLost = False,
     FrameTime = 0, TextureWidth = 128, TextureHeight = 32, FrameWidth = 32,
     FrameHeight = 32,
     anim = \<lparr>rect_x = 0, rect_y = 0, rect_w = 32, rect_h = 32\<rparr>,
     game_active = True\<rparr>"
  by (simp add: aloft60_def flight60_def run_append eval_defs)

lemma fallen37_eval:
  "GameLost fallen37 \<and> Position (Player fallen37) = (200, 633)
   \<and> Velocity (Player fallen37) = (0, 37 / 2)"
  by (simp add: fallen37_def eval_defs)

theorem CheckCollision_strict_overlap_witness:
  "rect_x left_box + rect_w left_box = rect_x right_box
   \<and> \<not> CheckCollision left_box right_box
   \<and> \<not> CheckCollision right_box left_box
   \<and> CheckCollision left_box middle_box
   \<and> CheckCollision middle_box left_box"
  using CheckCollision_strict_overlap [of left_box right_box]
    CheckCollision_strict_overlap [of left_box middle_box]
  by (auto simp: left_box_def right_box_def middle_box_def)

lemma GameLost_run: "GameLost g \<Longrightarrow> GameLost (run es g)"
  by (rule run_invariant) (simp_all add: GameLost_frame GameLost_border_check phase_simps)

lemma frame_key_up_lost: "GameLost g \<Longrightarrow> frame (e\<lparr>key_up := k\<rparr>) g = frame e g"
  by (simp add: frame_def handle_input_def poll_events_def spawn_def Let_def)

text \<open>
  C4. Once the lost flag is true it stays true: no phase of the loop body resets it,
  so it is true after every later frame; and while it is true the up key changes
  nothing (the input phase is the identity, and the frame does not depend on the key).
\<close>

theorem lost_is_permanent:
  "GameLost g \<Longrightarrow>
     GameLost (spawn e g) \<and> GameLost (poll_events e g) \<and> GameLost (handle_input e g)
     \<and> GameLost (integrate g) \<and> GameLost (border_check g) \<and> GameLost (collide g)
     \<and> GameLost (render g) \<and> GameLost (frame e g) \<and> GameLost (run es g)
     \<and> handle_input e g = g
     \<and> frame (e\<lparr>key_up := k\<rparr>) g = frame e g"
  by (simp add: phase_simps GameLost_border_check GameLost_collide GameLost_frame
      GameLost_run frame_key_up_lost) (simp add: handle_input_def)

theorem lost_is_permanent_witness:
  "GameLost fallen37
   \<and> GameLost (frame up_env fallen37)
   \<and> GameLost (run (replicate 100 up_env) fallen37)
   \<and> handle_input up_env fallen37 = fallen37
   \<and> frame up_env fallen37 = frame quiet_env fallen37"
  using lost_is_permanent [of fallen37 up_env "replicate 100 up_env" False]
    lost_is_permanent [of fallen37 quiet_env "[]" True] fallen37_eval
  by (simp add: up_env_def)

lemma aloft61_up_alive: "\<not> GameLost (frame up_env aloft60)"
  by (simp add: aloft60_eval eval_defs)

text \<open>
  C7. In a frame with the up key held and the lost flag false, the input phase lowers
  the player's vertical position by exactly 1 and sets the vertical velocity to
  exactly -8 before the integration; in every other frame the input phase leaves the
  player as it is. Nothing but the key and the flag of the current frame decides
  this, so it repeats in each consecutive such frame.
\<close>

theorem up_key_impulse:
  "Player (handle_input e (poll_events e (spawn e g))) =
     (if key_up e \<and> \<not> GameLost g
      then (Player g)\<lparr>Position := (fst (Position (Player g)), snd (Position (Player g)) - 1),
                       Velocity := (fst (Velocity (Player g)), -8)\<rparr>
      else Player g)
   \<and> Position (Player (frame e g)) =
     (if key_up e \<and> \<not> GameLost g
      then (fst (Position (Player g)) + fst (Velocity (Player g)),
            (snd (Position (Player g)) - 1) + (-8))
      else pos_add (Position (Player g)) (Velocity (Player g)))
   \<and> Velocity (Player (frame e g)) =
     (if key_up e \<and> \<not> GameLost g
      then (fst (Velocity (Player g)), -8 + 1 / 2)
      else pos_add (Velocity (Player g)) (0, 1 / 2))
   \<and> (key_up e \<and> \<not> GameLost g \<and> key_up e2 \<and> \<not> GameLost (frame e g)
      \<longrightarrow> snd (Position (Player (frame e2 (frame e g)))) = snd (Position (Player g)) - 18
          \<and> snd (Velocity (Player (frame e2 (frame e g)))) = -8 + 1 / 2)"
  by (simp add: Player_frame place_def integrate_def handle_input_def poll_events_def
      Player_spawn GameLost_spawn pos_add_def Let_def)

theorem up_key_impulse_witness:
  "key_up up_env \<and> \<not> GameLost aloft60
   \<and> Position (Player aloft60) = (200, 255)
   \<and> Position (Player (handle_input up_env (poll_events up_env (spawn up_env aloft60))))
       = (200, 254)
   \<and> Velocity (Player (handle_input up_env (poll_events up_env (spawn up_env aloft60))))
       = (0, -8)
   \<and> Position (Player (frame up_env aloft60)) = (200, 246)
   \<and> Velocity (Player (frame up_env aloft60)) = (0, -15 / 2)
   \<and> \<not> GameLost (frame up_env aloft60)
   \<and> snd (Position (Player (frame up_env (frame up_env aloft60)))) = 237
   \<and> snd (Velocity (Player (frame up_env (frame up_env aloft60)))) = -15 / 2
   \<and> Player (handle_input up_env (poll_events up_env (spawn up_env fallen37)))
       = Player fallen37"
  using up_key_impulse [of up_env aloft60 up_env] up_key_impulse [of up_env fallen37 up_env]
    fallen37_eval aloft61_up_alive
  by (simp add: aloft60_eval up_env_def quiet_env_def)

lemma Walls_spawn:
  "Walls (spawn e g) = Walls g @
     (if next_time (GameTime g) > Interval g
      then [GetWall (wall_mem1 e) (832, 650 + real_of_int (rnd_pos e)) (-1, 0) (64, 512),
            GetWall (wall_mem2 e) (832, -50 + real_of_int (rnd_pos e)) (-1, 0) (64, 512)]
      else [])"
  by (simp add: spawn_def Let_def)

lemma walls_shape_frame:
  assumes "\<forall>w\<in>set (Walls g). Velocity w = (-1, 0) \<and> Size w = (64, 512)"
  shows "\<forall>w\<in>set (Walls (frame e g)). Velocity w = (-1, 0) \<and> Size w = (64, 512)"
  using assms by (auto simp: Walls_frame Walls_spawn place_def GetWall_def)

lemma walls_shape_run:
  "\<forall>w\<in>set (Walls (run es (init tw th mem))). Velocity w = (-1, 0) \<and> Size w = (64, 512)"
  by (rule run_invariant) (simp add: init_def, rule walls_shape_frame)


lemma player_size_frame: "Size (Player (frame e g)) = Size (Player g)"
  by (simp add: Player_frame place_def phase_simps)

lemma player_size_run: "Size (Player (run es (init tw th mem))) = (32, 32)"
  by (rule run_invariant) (simp_all add: init_def player_size_frame)


lemma env_fields:
  "key_up up_env" "\<not> key_up quiet_env" "\<not> key_up dirty_env"
  "events up_env = []" "events quiet_env = []" "events dirty_env = []"
  "rnd_pos up_env = 0" "rnd_pos quiet_env = 0" "rnd_pos dirty_env = 0"
  "rnd_interval up_env = 6" "rnd_interval quiet_env = 6" "rnd_interval dirty_env = 6"
  "wall_mem1 up_env = zero_rect" "wall_mem1 quiet_env = zero_rect"
  "wall_mem1 dirty_env = big_rect"
  "wall_mem2 up_env = zero_rect" "wall_mem2 quiet_env = zero_rect"
  "wall_mem2 dirty_env = zero_rect"
  by (simp_all add: up_env_def quiet_env_def dirty_env_def)


lemma aloft61_run: "frame quiet_env aloft60 = run (flight60 @ [quiet_env]) (init 128 32 zero_rect)"
  by (simp add: run_append aloft60_def [symmetric] aloft60_eval)


lemma brink37_facts:
  "\<not> GameLost brink37 \<and> snd (Position (Player (frame quiet_env brink37))) = - 16
   \<and> \<not> GameLost (frame quiet_env brink37)"
  by (simp add: brink37_def run_append eval_defs)

lemma over38_facts:
  "\<not> GameLost over38 \<and> snd (Position (Player (frame quiet_env over38))) = - 39 / 2
   \<and> GameLost (frame quiet_env over38)"
  by (simp add: over38_def run_append eval_defs)

lemma back53_facts:
  "GameLost back53 \<and> snd (Position (Player (frame quiet_env back53))) = - 12"
  by (simp add: back53_def run_append eval_defs)

lemma y_frame:
  "snd (Position (Player (frame e g)))
     = snd (Position (Player (integrate (handle_input e (poll_events e (spawn e g))))))"
  by (simp add: Player_frame Player_integrate_handle_input place_def)

lemma GameLost_frame_border:
  "GameLost (border_check (integrate (handle_input e (poll_events e (spawn e g)))))
     \<Longrightarrow> GameLost (frame e g)"
  by (simp add: frame_def GameLost_render GameLost_collide)

text \<open>
  C6. In every frame, right after the integration, the border check sets the lost
  flag exactly when the player's vertical position is below -16 or above 616 (half the
  constant player height beyond the window); on -16 or 616 itself the check leaves the
  flag as it was; and once the flag is true after a frame it is true after all later
  frames, wherever the player is then.
\<close>

theorem border_loss:
  "g = run es (init tw th mem) \<Longrightarrow>
   g1 = integrate (handle_input e (poll_events e (spawn e g))) \<Longrightarrow>
   y = snd (Position (Player g1)) \<Longrightarrow>
     border_check g1 = (if y < - 16 \<or> 616 < y then g1\<lparr>GameLost := True\<rparr> else g1)
     \<and> - snd (Size (Player g1)) / 2 = - 16
     \<and> int_to_double SCREEN_HEIGHT + snd (Size (Player g1)) / 2 = 616
     \<and> snd (Position (Player (frame e g))) = y
     \<and> (y < - 16 \<or> 616 < y \<longrightarrow> GameLost (frame e g))
     \<and> (y = - 16 \<or> y = 616 \<longrightarrow> GameLost (border_check g1) = GameLost g)
     \<and> (GameLost (frame e g) \<longrightarrow> GameLost (run es2 (frame e g)))"
proof -
  assume g: "g = run es (init tw th mem)"
    and g1: "g1 = integrate (handle_input e (poll_events e (spawn e g)))"
    and y: "y = snd (Position (Player g1))"
  have size: "Size (Player g1) = (32, 32)"
    unfolding g1 g by (simp add: phase_simps player_size_run)
  have height: "int_to_double SCREEN_HEIGHT = 600"
    by (simp add: int_to_double_def SCREEN_HEIGHT_def)
  have check: "border_check g1 = (if y < - 16 \<or> 616 < y then g1\<lparr>GameLost := True\<rparr> else g1)"
    by (simp add: border_check_def size height y)
  have lost1: "GameLost g1 = GameLost g"
    unfolding g1 by (simp add: phase_simps)
  have pos: "snd (Position (Player (frame e g))) = y"
    unfolding y g1 by (rule y_frame)
  have out: "y < - 16 \<or> 616 < y \<longrightarrow> GameLost (frame e g)"
    using GameLost_frame_border [of e g] check unfolding g1 [symmetric] by auto
  have edge: "y = - 16 \<or> y = 616 \<longrightarrow> GameLost (border_check g1) = GameLost g"
    using check lost1 by auto
  have later: "GameLost (frame e g) \<longrightarrow> GameLost (run es2 (frame e g))"
    by (simp add: GameLost_run)
  from check size height pos out edge later show ?thesis by simp
qed

theorem border_loss_witness:
  "\<not> GameLost brink37
   \<and> snd (Position (Player (frame quiet_env brink37))) = - 16
   \<and> \<not> GameLost (frame quiet_env brink37)
   \<and> \<not> GameLost over38
   \<and> snd (Position (Player (frame quiet_env over38))) = - 39 / 2
   \<and> GameLost (frame quiet_env over38)
   \<and> GameLost (run (replicate 15 quiet_env) (frame quiet_env over38))
   \<and> snd (Position (Player (frame quiet_env back53))) = - 12
   \<and> GameLost (frame quiet_env back53)"
  using border_loss [OF brink37_def refl refl, of quiet_env "[]"]
    border_loss [OF over38_def refl refl, of quiet_env "replicate 15 quiet_env"]
    border_loss [OF back53_def refl refl, of quiet_env "[]"]
    brink37_facts over38_facts back53_facts GameLost_frame [of quiet_env back53]
  by (simp add: phase_simps GameLost_border_check)

lemma length_Walls_frame: "length (Walls (frame e g)) = length (Walls (spawn e g))"
  by (simp add: Walls_frame)

text \<open>
  C1. In a frame whose timer test succeeds (the timer, advanced and rounded to
  \<^verbatim>\<open>float\<close>, exceeds \<^verbatim>\<open>Interval\<close>), exactly two walls are appended to the
  list: the first at (832, 650 + offset), the second at (832, -50 + offset), both with
  velocity (-1, 0) and size (64, 512), for the one offset drawn, which lies in
  [-150, 150]; the first wall's y minus the second wall's y is 700.
\<close>

theorem spawn_appends_pair:
  "next_time (GameTime g) > Interval g \<Longrightarrow> env_ok e \<Longrightarrow> off = real_of_int (rnd_pos e) \<Longrightarrow>
     Walls (spawn e g) = Walls g @
       [\<lparr>Position = (832, 650 + off), Velocity = (- 1, 0), Size = (64, 512),
         DestRect = Indeterminate (wall_mem1 e)\<rparr>,
        \<lparr>Position = (832, - 50 + off), Velocity = (- 1, 0), Size = (64, 512),
         DestRect = Indeterminate (wall_mem2 e)\<rparr>]
     \<and> - 150 \<le> off \<and> off \<le> 150
     \<and> snd (Position (Walls (spawn e g) ! length (Walls g)))
         - snd (Position (Walls (spawn e g) ! (length (Walls g) + 1))) = 700
     \<and> length (Walls (frame e g)) = length (Walls g) + 2"
  by (simp add: length_Walls_frame Walls_spawn GetWall_def env_ok_def nth_append)

theorem spawn_appends_pair_witness:
  "next_time (GameTime aloft60) > Interval aloft60 \<and> env_ok quiet_env
   \<and> Walls (spawn quiet_env aloft60) =
       [\<lparr>Position = (832, 650), Velocity = (- 1, 0), Size = (64, 512),
         DestRect = Indeterminate zero_rect\<rparr>,
        \<lparr>Position = (832, - 50), Velocity = (- 1, 0), Size = (64, 512),
         DestRect = Indeterminate zero_rect\<rparr>]
   \<and> length (Walls (frame quiet_env aloft60)) = 2"
  using spawn_appends_pair [of aloft60 quiet_env 0]
  by (simp add: aloft60_eval timer_eval env_ok_def env_fields)

theorem spawn_pair_difference_counterexample:
  "next_time (GameTime aloft60) > Interval aloft60 \<and> env_ok quiet_env
   \<and> length (Walls (spawn quiet_env aloft60)) = 2
   \<and> snd (Position (Walls (spawn quiet_env aloft60) ! 1))
       - snd (Position (Walls (spawn quiet_env aloft60) ! 0)) = - 700
   \<and> snd (Position (Walls (spawn quiet_env aloft60) ! 1))
       - snd (Position (Walls (spawn quiet_env aloft60) ! 0)) \<noteq> 700"
  by (simp add: Walls_spawn aloft60_eval timer_eval env_ok_def env_fields GetWall_def)

lemma collision_spawn:
  "(\<exists>w\<in>set (Walls (spawn e g)). CheckCollision (rect_bits (DestRect w)) pr) \<longleftrightarrow>
     (\<exists>w\<in>set (Walls g). CheckCollision (rect_bits (DestRect w)) pr)
     \<or> (next_time (GameTime g) > Interval g
         \<and> (CheckCollision (wall_mem1 e) pr \<or> CheckCollision (wall_mem2 e) pr))"
  by (cases "Interval g < next_time (GameTime g)") (auto simp: Walls_spawn GetWall_def)

lemma handle_input_rnd_pos: "handle_input (e\<lparr>rnd_pos := q\<rparr>) g = handle_input e g"
  by (simp add: handle_input_def)

lemma GameLost_frame_rnd_pos: "GameLost (frame (e\<lparr>rnd_pos := q\<rparr>) g) = GameLost (frame e g)"
  by (simp add: GameLost_frame collision_spawn handle_input_rnd_pos)

text \<open>
  C9. GetWall stores Position, Velocity and Size and leaves DestRect as it finds it.
  In the frame that spawns a pair of walls, the collision loop already tests the two
  new walls against the player, and the rectangle it reads for each is the content of
  the wall's storage: the outcome does not depend on the position the wall was spawned
  at. The walls get a rectangle derived from their position only in the render phase
  of that frame, after the test.
\<close>

theorem new_wall_rect_unassigned:
  "next_time (GameTime g) > Interval g \<Longrightarrow> pr = rect_bits (DestRect (Player g)) \<Longrightarrow>
     DestRect (GetWall m P V S) = Indeterminate m
     \<and> \<not> is_assigned (DestRect (GetWall m P V S))
     \<and> map DestRect (drop (length (Walls g)) (Walls (spawn e g)))
         = [Indeterminate (wall_mem1 e), Indeterminate (wall_mem2 e)]
     \<and> (GameLost (frame e g) \<longleftrightarrow>
          GameLost (border_check (integrate (handle_input e g)))
          \<or> (\<exists>w\<in>set (Walls g). CheckCollision (rect_bits (DestRect w)) pr)
          \<or> CheckCollision (wall_mem1 e) pr
          \<or> CheckCollision (wall_mem2 e) pr)
     \<and> GameLost (frame (e\<lparr>rnd_pos := q\<rparr>) g) = GameLost (frame e g)
     \<and> map DestRect (drop (length (Walls g)) (Walls (frame e g)))
         = map (\<lambda>w. Assigned (dest_rect_of w)) (drop (length (Walls g)) (Walls (frame e g)))
     \<and> map Position (drop (length (Walls g)) (Walls (frame e g)))
         = [(831, 650 + real_of_int (rnd_pos e)), (831, - 50 + real_of_int (rnd_pos e))]"
proof -
  assume spawns: "next_time (GameTime g) > Interval g"
    and pr: "pr = rect_bits (DestRect (Player g))"
  have built: "DestRect (GetWall m P V S) = Indeterminate m
      \<and> \<not> is_assigned (DestRect (GetWall m P V S))"
    by (simp add: GetWall_def)
  have fresh: "map DestRect (drop (length (Walls g)) (Walls (spawn e g)))
      = [Indeterminate (wall_mem1 e), Indeterminate (wall_mem2 e)]"
    using spawns by (simp add: Walls_spawn GetWall_def)
  have lost: "GameLost (frame e g) \<longleftrightarrow>
      GameLost (border_check (integrate (handle_input e g)))
      \<or> (\<exists>w\<in>set (Walls g). CheckCollision (rect_bits (DestRect w)) pr)
      \<or> CheckCollision (wall_mem1 e) pr
      \<or> CheckCollision (wall_mem2 e) pr"
    using spawns unfolding pr by (simp add: GameLost_frame collision_spawn)
  have placed: "map DestRect (drop (length (Walls g)) (Walls (frame e g)))
      = map (\<lambda>w. Assigned (dest_rect_of w)) (drop (length (Walls g)) (Walls (frame e g)))"
    using spawns by (simp add: Walls_frame Walls_spawn place_def dest_rect_of_def)
  have moved: "map Position (drop (length (Walls g)) (Walls (frame e g)))
      = [(831, 650 + real_of_int (rnd_pos e)), (831, - 50 + real_of_int (rnd_pos e))]"
    using spawns by (simp add: Walls_frame Walls_spawn GetWall_def place_def pos_add_def)
  from built fresh lost placed moved GameLost_frame_rnd_pos [of q e g]
  show ?thesis by blast
qed

theorem new_wall_rect_unassigned_witness:
  "next_time (GameTime aloft60) > Interval aloft60
   \<and> Walls aloft60 = []
   \<and> \<not> GameLost (border_check (integrate (handle_input dirty_env aloft60)))
   \<and> map DestRect (Walls (spawn dirty_env aloft60))
       = [Indeterminate big_rect, Indeterminate zero_rect]
   \<and> CheckCollision big_rect (rect_bits (DestRect (Player aloft60)))
   \<and> GameLost (frame dirty_env aloft60)
   \<and> GameLost (frame (dirty_env\<lparr>rnd_pos := 150\<rparr>) aloft60)
   \<and> \<not> GameLost (frame quiet_env aloft60)"
  using new_wall_rect_unassigned [OF _ refl, of aloft60 zero_rect "(0, 0)" "(0, 0)" "(0, 0)"
      dirty_env 150]
    new_wall_rect_unassigned [OF _ refl, of aloft60 zero_rect "(0, 0)" "(0, 0)" "(0, 0)"
      quiet_env 150]
  by (simp add: aloft60_eval timer_eval env_fields border_check_def integrate_def
      handle_input_def pos_add_def int_to_double_def SCREEN_HEIGHT_def CheckCollision_def
      big_rect_def zero_rect_def Let_def)

lemma dest_rect_of_place: "dest_rect_of (place ob) = dest_rect_of ob"
  by (simp add: place_def dest_rect_of_def)

lemma DestRect_place: "DestRect (place ob) = Assigned (dest_rect_of (place ob))"
  by (simp add: place_def dest_rect_of_def)

lemma placed_frame:
  "DestRect (Player (frame e g)) = Assigned (dest_rect_of (Player (frame e g)))
   \<and> map DestRect (Walls (frame e g)) = map (\<lambda>w. Assigned (dest_rect_of w)) (Walls (frame e g))"
  by (simp add: Player_frame Walls_frame DestRect_place comp_def)

lemma run_ends_with_frame:
  "es \<noteq> [] \<Longrightarrow> game_active g \<Longrightarrow> \<exists>e' g'. run es g = frame e' g'"
proof (induction es arbitrary: g)
  case Nil
  then show ?case by simp
next
  case (Cons e es)
  show ?case
  proof (cases "es = [] \<or> \<not> game_active (frame e g)")
    case True
    with Cons.prems have "run (e # es) g = frame e g"
      by (auto simp: run_inactive)
    then show ?thesis by (rule exI [where x = e, OF exI [where x = g]])
  next
    case False
    with Cons.IH [of "frame e g"] Cons.prems show ?thesis by simp
  qed
qed

lemma placed_run:
  assumes "es \<noteq> []"
  shows "DestRect (Player (run es (init tw th mem)))
           = Assigned (dest_rect_of (Player (run es (init tw th mem))))
         \<and> map DestRect (Walls (run es (init tw th mem)))
           = map (\<lambda>w. Assigned (dest_rect_of w)) (Walls (run es (init tw th mem)))"
proof -
  have "game_active (init tw th mem)" by (simp add: init_def)
  with assms obtain e' g' where "run es (init tw th mem) = frame e' g'"
    using run_ends_with_frame by blast
  then show ?thesis by (simp only: placed_frame)
qed

lemma collision_placed:
  assumes "map DestRect ws = map (\<lambda>w. Assigned (dest_rect_of w)) ws"
  shows "(\<exists>w\<in>set ws. CheckCollision (rect_bits (DestRect w)) pr)
         \<longleftrightarrow> (\<exists>w\<in>set ws. CheckCollision (dest_rect_of w) pr)"
proof -
  have "\<forall>w\<in>set ws. DestRect w = Assigned (dest_rect_of w)"
    using assms by (induction ws) auto
  then show ?thesis by auto
qed

text \<open>
  C3. After the first frame, every wall that is in the list when a frame begins, and
  the player, hold the rectangle the previous frame's render phase derived from the
  positions that frame had reached. The collision loop tests those rectangles: an
  overlap between such a wall's rectangle and the player's sets the lost flag, and in
  a frame that spawns nothing the flag after the frame is decided by the border check
  and these overlaps alone. The loop has moved the walls by then; the rectangles are
  derived again from the new positions only in the render phase that follows.
\<close>

theorem collision_uses_previous_boxes:
  "es \<noteq> [] \<Longrightarrow> g = run es (init tw th mem) \<Longrightarrow> pr = dest_rect_of (Player g) \<Longrightarrow>
     DestRect (Player g) = Assigned pr
     \<and> map DestRect (Walls g) = map (\<lambda>w. Assigned (dest_rect_of w)) (Walls g)
     \<and> take (length (Walls g)) (Walls (spawn e g)) = Walls g
     \<and> ((\<exists>w\<in>set (Walls g). CheckCollision (dest_rect_of w) pr) \<longrightarrow> GameLost (frame e g))
     \<and> (next_time (GameTime g) \<le> Interval g \<longrightarrow>
          (GameLost (frame e g) \<longleftrightarrow>
             GameLost (border_check (integrate (handle_input e g)))
             \<or> (\<exists>w\<in>set (Walls g). CheckCollision (dest_rect_of w) pr)))
     \<and> map Position (take (length (Walls g)) (Walls (frame e g)))
         = map (\<lambda>w. pos_add (Position w) (- 1, 0)) (Walls g)
     \<and> map DestRect (Walls (frame e g))
         = map (\<lambda>w. Assigned (dest_rect_of w)) (Walls (frame e g))
     \<and> DestRect (Player (frame e g)) = Assigned (dest_rect_of (Player (frame e g)))"
proof -
  assume es: "es \<noteq> []" and g: "g = run es (init tw th mem)"
    and pr: "pr = dest_rect_of (Player g)"
  from placed_run [OF es, of tw th mem]
  have player: "DestRect (Player g) = Assigned pr"
    and walls: "map DestRect (Walls g) = map (\<lambda>w. Assigned (dest_rect_of w)) (Walls g)"
    unfolding g pr by simp_all
  have old: "take (length (Walls g)) (Walls (spawn e g)) = Walls g"
    by (simp add: Walls_spawn)
  have bits: "rect_bits (DestRect (Player g)) = pr"
    by (simp add: player)
  have hit: "(\<exists>w\<in>set (Walls g). CheckCollision (dest_rect_of w) pr) \<longrightarrow> GameLost (frame e g)"
    using collision_placed [OF walls, of pr]
    by (simp add: GameLost_frame collision_spawn bits)
  have quiet: "next_time (GameTime g) \<le> Interval g \<longrightarrow>
      (GameLost (frame e g) \<longleftrightarrow>
         GameLost (border_check (integrate (handle_input e g)))
         \<or> (\<exists>w\<in>set (Walls g). CheckCollision (dest_rect_of w) pr))"
    using collision_placed [OF walls, of pr]
    by (simp add: GameLost_frame collision_spawn bits)
  have "\<forall>w\<in>set (Walls g). Velocity w = (- 1, 0)"
    unfolding g using walls_shape_run [of es tw th mem] by simp
  then have moved: "map Position (take (length (Walls g)) (Walls (frame e g)))
      = map (\<lambda>w. pos_add (Position w) (- 1, 0)) (Walls g)"
    by (simp add: Walls_frame Walls_spawn take_map [symmetric] place_def)
  from player walls old hit quiet moved placed_frame [of e g]
  show ?thesis by blast
qed

theorem stale_box_counterexample:
  "flight60 \<noteq> []
   \<and> Walls aloft60 = []
   \<and> \<not> GameLost (border_check (integrate (handle_input dirty_env aloft60)))
   \<and> map DestRect (Walls (spawn dirty_env aloft60))
       = [Indeterminate big_rect, Indeterminate zero_rect]
   \<and> GameLost (frame dirty_env aloft60)
   \<and> \<not> GameLost (frame quiet_env aloft60)"
  by (simp add: flight60_def aloft60_eval eval_defs)

lemma concat_replicate_numeral:
  "concat (replicate (numeral k) xs) = xs @ concat (replicate (pred_numeral k) xs)"
  by (simp add: numeral_eq_Suc)

lemma approach645_eval:
  "approach645 =
    \<lparr>Player = \<lparr>Position = (200, 165), Velocity = (0, 21 / 2), Size = (32, 32),
                DestRect = Assigned \<lparr>rect_x = 184, rect_y = 149, rect_w = 32, rect_h = 32\<rparr>\<rparr>,
     Score = 0, GameTime = 1409025 / 131072, Interval = 13,
     Walls =
       [\<lparr>Position = (247, 650), Velocity = (- 1, 0), Size = (64, 512),
         DestRect = Assigned \<lparr>rect_x = 215, rect_y = 394, rect_w = 64, rect_h = 512\<rparr>\<rparr>,
        \<lparr>Position = (247, - 50), Velocity = (- 1, 0), Size = (64, 512),
         DestRect = Assigned \<lparr>rect_x = 215, rect_y = - 306, rect_w = 64, rect_h = 512\<rparr>\<rparr>,
        \<lparr>Position = (606, 650), Velocity = (- 1, 0), Size = (64, 512),
         DestRect = Assigned \<lparr>rect_x = 574, rect_y = 394, rect_w = 64, rect_h = 512\<rparr>\<rparr>,
        \<lparr>Position = (606, - 50), Velocity = (- 1, 0), Size = (64, 512),
         DestRect = Assigned \<lparr>rect_x = 574, rect_y = - 306, rect_w = 64, rect_h = 512\<rparr>\<rparr>],
     GameLost = False, FrameTime = 0, TextureWidth = 128, TextureHeight = 32,
     FrameWidth = 32, FrameHeight = 32,
     anim = \<lparr>rect_x = 32, rect_y = 0, rect_w = 32, rect_h = 32\<rparr>,
     game_active = True\<rparr>"
  by (simp add: approach645_def concat_replicate_numeral glide32_def run_append eval_defs)

lemma approach645_nonempty: "concat (replicate 20 glide32) @ replicate 5 quiet_env \<noteq> []"
  by simp

lemma flight61_nonempty: "flight60 @ [quiet_env] \<noteq> []"
  by simp

lemma approach645_facts:
  "\<not> GameLost approach645
   \<and> map Position (Walls approach645) = [(247, 650), (247, - 50), (606, 650), (606, - 50)]
   \<and> dest_rect_of (Player approach645)
       = \<lparr>rect_x = 184, rect_y = 149, rect_w = 32, rect_h = 32\<rparr>
   \<and> dest_rect_of (Walls approach645 ! 1)
       = \<lparr>rect_x = 215, rect_y = - 306, rect_w = 64, rect_h = 512\<rparr>
   \<and> CheckCollision (dest_rect_of (Walls approach645 ! 1)) (dest_rect_of (Player approach645))
   \<and> \<not> GameLost (border_check (integrate (handle_input quiet_env approach645)))
   \<and> GameLost (frame quiet_env approach645)"
  by (simp add: approach645_eval eval_defs)

lemma aloft62_facts:
  "next_time (GameTime (frame quiet_env aloft60)) \<le> Interval (frame quiet_env aloft60)
   \<and> map DestRect (Walls (frame quiet_env aloft60))
       = [Assigned \<lparr>rect_x = 799, rect_y = 394, rect_w = 64, rect_h = 512\<rparr>,
          Assigned \<lparr>rect_x = 799, rect_y = - 306, rect_w = 64, rect_h = 512\<rparr>]
   \<and> map Position (Walls (frame quiet_env (frame quiet_env aloft60)))
       = [(830, 650), (830, - 50)]
   \<and> \<not> GameLost (frame quiet_env (frame quiet_env aloft60))"
  by (simp add: aloft60_eval eval_defs)

theorem collision_uses_previous_boxes_witness:
  "\<not> GameLost approach645
   \<and> map Position (Walls approach645) = [(247, 650), (247, - 50), (606, 650), (606, - 50)]
   \<and> dest_rect_of (Player approach645)
       = \<lparr>rect_x = 184, rect_y = 149, rect_w = 32, rect_h = 32\<rparr>
   \<and> dest_rect_of (Walls approach645 ! 1)
       = \<lparr>rect_x = 215, rect_y = - 306, rect_w = 64, rect_h = 512\<rparr>
   \<and> CheckCollision (dest_rect_of (Walls approach645 ! 1)) (dest_rect_of (Player approach645))
   \<and> \<not> GameLost (border_check (integrate (handle_input quiet_env approach645)))
   \<and> GameLost (frame quiet_env approach645)
   \<and> next_time (GameTime (frame quiet_env aloft60)) \<le> Interval (frame quiet_env aloft60)
   \<and> map DestRect (Walls (frame quiet_env aloft60))
       = [Assigned \<lparr>rect_x = 799, rect_y = 394, rect_w = 64, rect_h = 512\<rparr>,
          Assigned \<lparr>rect_x = 799, rect_y = - 306, rect_w = 64, rect_h = 512\<rparr>]
   \<and> map Position (Walls (frame quiet_env (frame quiet_env aloft60)))
       = [(830, 650), (830, - 50)]
   \<and> \<not> GameLost (frame quiet_env (frame quiet_env aloft60))"
  using collision_uses_previous_boxes [OF approach645_nonempty approach645_def refl, of quiet_env]
    collision_uses_previous_boxes [OF flight61_nonempty aloft61_run refl, of quiet_env]
    approach645_facts aloft62_facts
  by blast

lemma sint_int32:
  "- (2 ^ 31) \<le> i \<Longrightarrow> i < 2 ^ 31 \<Longrightarrow> sint (word_of_int i :: c_int) = i"
  by (simp add: sint_sbintrunc' signed_take_bit_int_eq_self)

lemma poll_no_quit: "poll evs a \<longleftrightarrow> a \<and> SDL_QUIT \<notin> set evs"
  by (induction evs arbitrary: a) auto

lemma anim_fields_spawn:
  "FrameTime (spawn e g) = FrameTime g \<and> anim (spawn e g) = anim g
   \<and> TextureWidth (spawn e g) = TextureWidth g \<and> FrameWidth (spawn e g) = FrameWidth g
   \<and> game_active (spawn e g) = game_active g"
  by (simp add: spawn_def Let_def)

lemma anim_fields_poll_events:
  "FrameTime (poll_events e g) = FrameTime g \<and> anim (poll_events e g) = anim g
   \<and> TextureWidth (poll_events e g) = TextureWidth g
   \<and> FrameWidth (poll_events e g) = FrameWidth g
   \<and> game_active (poll_events e g) = poll (events e) (game_active g)"
  by (simp add: poll_events_def)

lemma anim_fields_handle_input:
  "FrameTime (handle_input e g) = FrameTime g \<and> anim (handle_input e g) = anim g
   \<and> TextureWidth (handle_input e g) = TextureWidth g
   \<and> FrameWidth (handle_input e g) = FrameWidth g
   \<and> game_active (handle_input e g) = game_active g"
  by (simp add: handle_input_def)

lemma anim_fields_integrate:
  "FrameTime (integrate g) = FrameTime g \<and> anim (integrate g) = anim g
   \<and> TextureWidth (integrate g) = TextureWidth g \<and> FrameWidth (integrate g) = FrameWidth g
   \<and> game_active (integrate g) = game_active g"
  by (simp add: integrate_def Let_def)

lemma anim_fields_border_check:
  "FrameTime (border_check g) = FrameTime g \<and> anim (border_check g) = anim g
   \<and> TextureWidth (border_check g) = TextureWidth g
   \<and> FrameWidth (border_check g) = FrameWidth g
   \<and> game_active (border_check g) = game_active g"
  by (simp add: border_check_def)

lemma anim_fields_collide:
  "FrameTime (collide g) = FrameTime g \<and> anim (collide g) = anim g
   \<and> TextureWidth (collide g) = TextureWidth g \<and> FrameWidth (collide g) = FrameWidth g
   \<and> game_active (collide g) = game_active g"
  by (simp add: collide_def case_prod_beta)

lemma anim_fields_render:
  "FrameTime (render g) = (if FrameTime g + 1 = 5 then 0 else FrameTime g + 1)
   \<and> rect_x (anim (render g)) =
       (if FrameTime g + 1 = 5
        then (if sint (TextureWidth g) \<le> sint (rect_x (anim g) + FrameWidth g) then 0
              else rect_x (anim g) + FrameWidth g)
        else rect_x (anim g))
   \<and> TextureWidth (render g) = TextureWidth g \<and> FrameWidth (render g) = FrameWidth g
   \<and> game_active (render g) = game_active g"
  by (simp add: render_def render_player_def animate_def render_walls_def Let_def)

lemmas anim_fields =
  anim_fields_spawn anim_fields_poll_events anim_fields_handle_input anim_fields_integrate
  anim_fields_border_check anim_fields_collide anim_fields_render

lemma game_active_frame: "game_active (frame e g) = poll (events e) (game_active g)"
  by (simp add: frame_def anim_fields)

lemma animation_frame:
  "FrameTime (frame e g) = (if FrameTime g + 1 = 5 then 0 else FrameTime g + 1)
   \<and> rect_x (anim (frame e g)) =
       (if FrameTime g + 1 = 5
        then (if sint (TextureWidth g) \<le> sint (rect_x (anim g) + FrameWidth g) then 0
              else rect_x (anim g) + FrameWidth g)
        else rect_x (anim g))
   \<and> TextureWidth (frame e g) = TextureWidth g
   \<and> FrameWidth (frame e g) = FrameWidth g"
  by (simp add: frame_def anim_fields)

lemma c_div_4: "sint tw = 4 * k \<Longrightarrow> 0 < k \<Longrightarrow> c_div tw 4 = word_of_int k"
  by (simp add: c_div_def signed_divide_int_def)

lemma animation_step:
  assumes tw: "sint tw = 4 * k" and k: "0 < k"
    and ft: "FrameTime g = of_nat (n mod 5)"
    and ax: "rect_x (anim g) = word_of_int (int ((n div 5) mod 4) * k)"
    and fw: "FrameWidth g = word_of_int k"
    and txw: "TextureWidth g = tw"
  shows "FrameTime (frame e g) = of_nat (Suc n mod 5)
         \<and> rect_x (anim (frame e g)) = word_of_int (int ((Suc n div 5) mod 4) * k)
         \<and> FrameWidth (frame e g) = word_of_int k
         \<and> TextureWidth (frame e g) = tw"
proof -
  have "sint tw < 2 ^ 31"
    using sint_lt [of tw] by simp
  with tw have kb: "4 * k < 2 ^ 31" by simp
  consider "n mod 5 = 0" | "n mod 5 = 1" | "n mod 5 = 2" | "n mod 5 = 3" | "n mod 5 = 4"
    by arith
  then show ?thesis
  proof cases
    case 1
    then have "Suc n mod 5 = 1" "Suc n div 5 = n div 5" by arith+
    with 1 show ?thesis by (simp add: animation_frame ft ax fw txw)
  next
    case 2
    then have "Suc n mod 5 = 2" "Suc n div 5 = n div 5" by arith+
    with 2 show ?thesis by (simp add: animation_frame ft ax fw txw)
  next
    case 3
    then have "Suc n mod 5 = 3" "Suc n div 5 = n div 5" by arith+
    with 3 show ?thesis by (simp add: animation_frame ft ax fw txw)
  next
    case 4
    then have "Suc n mod 5 = 4" "Suc n div 5 = n div 5" by arith+
    with 4 show ?thesis by (simp add: animation_frame ft ax fw txw)
  next
    case 5
    then have suc: "Suc n mod 5 = 0" "Suc n div 5 = Suc (n div 5)" by arith+
    define j where "j = (n div 5) mod 4"
    have jb: "j < 4" by (simp add: j_def)
    have sum: "rect_x (anim g) + FrameWidth g = word_of_int (int (Suc j) * k)"
      by (simp add: ax fw j_def wi_hom_add algebra_simps)
    have "0 \<le> int (Suc j) * k" using k by simp
    moreover have "int (Suc j) * k \<le> 4 * k" using jb k by simp
    ultimately have val: "sint (rect_x (anim g) + FrameWidth g) = int (Suc j) * k"
      unfolding sum using kb by (intro sint_int32) simp_all
    have wrap: "sint (TextureWidth g) \<le> sint (rect_x (anim g) + FrameWidth g) \<longleftrightarrow> j = 3"
      using jb k by (auto simp: val txw tw)
    show ?thesis
    proof (cases "j = 3")
      case True
      then have "(Suc (n div 5)) mod 4 = 0" unfolding j_def by arith
      with True 5 suc wrap show ?thesis by (simp add: animation_frame ft fw txw)
    next
      case False
      then have "(Suc (n div 5)) mod 4 = Suc j" using jb unfolding j_def by arith
      with False 5 suc wrap sum show ?thesis by (simp add: animation_frame ft fw txw)
    qed
  qed
qed

lemma no_quit_active:
  "\<forall>e\<in>set es. SDL_QUIT \<notin> set (events e) \<Longrightarrow> game_active g \<Longrightarrow> game_active (run es g)"
  by (induction es arbitrary: g) (simp_all add: game_active_frame poll_no_quit)

lemma animation_run:
  assumes tw: "sint tw = 4 * k" and k: "0 < k"
    and quiet: "\<forall>e\<in>set es. SDL_QUIT \<notin> set (events e)"
  shows "FrameTime (run es (init tw th mem)) = of_nat (length es mod 5)
         \<and> rect_x (anim (run es (init tw th mem)))
             = word_of_int (int ((length es div 5) mod 4) * k)
         \<and> FrameWidth (run es (init tw th mem)) = word_of_int k
         \<and> TextureWidth (run es (init tw th mem)) = tw"
  using quiet
proof (induction es rule: rev_induct)
  case Nil
  show ?case using tw k by (simp add: init_def c_div_4)
next
  case (snoc e es)
  then have quiet': "\<forall>e\<in>set es. SDL_QUIT \<notin> set (events e)" by simp
  have "game_active (init tw th mem)" by (simp add: init_def)
  with quiet' have active: "game_active (run es (init tw th mem))"
    by (rule no_quit_active)
  have step: "run (es @ [e]) (init tw th mem) = frame e (run es (init tw th mem))"
    using active by (simp add: run_append)
  from snoc.IH [OF quiet'] show ?case
    unfolding step using animation_step [OF tw k, of "run es (init tw th mem)" "length es" e]
    by simp
qed

text \<open>
  C8. When the queried texture width is a positive multiple of 4, the animation
  offset after n frames is ((n div 5) mod 4) times the frame width (texture width / 4):
  it advances by one frame width in exactly every fifth frame, takes the four values
  0, w, 2w, 3w in turn and goes back to 0 where it would reach the texture width.
\<close>

theorem animation_cycle:
  "sint tw = 4 * k \<Longrightarrow> 0 < k \<Longrightarrow> \<forall>e\<in>set es. SDL_QUIT \<notin> set (events e) \<Longrightarrow>
   g = run es (init tw th mem) \<Longrightarrow> n = length es \<Longrightarrow>
     FrameWidth g = c_div tw 4
     \<and> sint (FrameWidth g) = k
     \<and> FrameTime g = of_nat (n mod 5)
     \<and> sint (rect_x (anim g)) = int ((n div 5) mod 4) * k
     \<and> sint (rect_x (anim g)) \<in> {0, k, 2 * k, 3 * k}
     \<and> sint (rect_x (anim (frame e' g))) =
         (if n mod 5 = 4 then int ((n div 5 + 1) mod 4) * k else sint (rect_x (anim g)))"
proof -
  assume tw: "sint tw = 4 * k" and k: "0 < k"
    and quiet: "\<forall>e\<in>set es. SDL_QUIT \<notin> set (events e)"
    and g: "g = run es (init tw th mem)" and n: "n = length es"
  have "sint tw < 2 ^ 31"
    using sint_lt [of tw] by simp
  with tw have kb: "4 * k < 2 ^ 31" by simp
  have small: "sint (word_of_int (int j * k) :: c_int) = int j * k" if "j < 4" for j :: nat
  proof -
    have "0 \<le> int j * k" using k by simp
    moreover have "int j * k \<le> 4 * k" using that k by simp
    ultimately show ?thesis using kb by (intro sint_int32) simp_all
  qed
  from animation_run [OF tw k quiet, of th mem]
  have ft: "FrameTime g = of_nat (n mod 5)"
    and ax: "rect_x (anim g) = word_of_int (int ((n div 5) mod 4) * k)"
    and fw: "FrameWidth g = word_of_int k"
    and txw: "TextureWidth g = tw"
    unfolding g n by simp_all
  have width: "FrameWidth g = c_div tw 4"
    using tw k by (simp add: fw c_div_4)
  have wk: "sint (FrameWidth g) = k"
    using small [of 1] by (simp add: fw)
  have pos: "sint (rect_x (anim g)) = int ((n div 5) mod 4) * k"
    unfolding ax by (rule small) simp
  have "(n div 5) mod 4 = 0 \<or> (n div 5) mod 4 = 1 \<or> (n div 5) mod 4 = 2 \<or> (n div 5) mod 4 = 3"
    by arith
  then have four: "sint (rect_x (anim g)) \<in> {0, k, 2 * k, 3 * k}"
    unfolding pos by auto
  from animation_step [OF tw k ft ax fw txw, of e']
  have "rect_x (anim (frame e' g)) = word_of_int (int ((Suc n div 5) mod 4) * k)"
    by simp
  then have nxt: "sint (rect_x (anim (frame e' g))) = int ((Suc n div 5) mod 4) * k"
    using small [of "(Suc n div 5) mod 4"] by simp
  have "Suc n div 5 = (if n mod 5 = 4 then n div 5 + 1 else n div 5)"
    by arith
  with nxt pos have step: "sint (rect_x (anim (frame e' g))) =
      (if n mod 5 = 4 then int ((n div 5 + 1) mod 4) * k else sint (rect_x (anim g)))"
    by simp
  from width wk ft pos four step show ?thesis by blast
qed

lemma quiet19: "\<forall>e\<in>set (replicate 19 quiet_env). SDL_QUIT \<notin> set (events e)"
  by (simp add: env_fields)

theorem animation_cycle_witness:
  "sint (128 :: c_int) = 4 * 32
   \<and> sint (FrameWidth (run (replicate 19 quiet_env) (init 128 32 zero_rect))) = 32
   \<and> FrameTime (run (replicate 19 quiet_env) (init 128 32 zero_rect)) = 4
   \<and> sint (rect_x (anim (run (replicate 19 quiet_env) (init 128 32 zero_rect)))) = 96
   \<and> sint (rect_x (anim (frame quiet_env (run (replicate 19 quiet_env)
        (init 128 32 zero_rect))))) = 0"
  using animation_cycle [OF _ _ quiet19 refl refl, of 128 32 32 zero_rect quiet_env]
  by (simp add: c_div_def signed_divide_int_def)

theorem animation_cycle_counterexample:
  "FrameWidth (init 10 32 zero_rect) = 2
   \<and> rect_x (anim (run (replicate 20 quiet_env) (init 10 32 zero_rect))) = 8
   \<and> rect_x (anim (run (replicate 25 quiet_env) (init 10 32 zero_rect))) = 0"
  by (simp add: eval_defs)

end
